theory Spec2Isabelle
  imports Complex_Main "HOL-Library.Word" "HOL-Library.Char_ord" "HOL-Library.List_Lexorder"
begin

section \<open>The IIO sensor discovery and reconciliation engine (src/IIOMain.cpp)\<close>

text \<open>
  The development follows \<^verbatim>\<open>createSensors\<close> and the \<^verbatim>\<open>eventHandler\<close> of \<^verbatim>\<open>main\<close>.
  One rescan pass is the body of the configuration callback (lines 43 to 229): a loop over
  the discovered paths that resolves a device identity, matches a configuration record,
  reconciles with the sensor table and constructs a sensor.  Exceptions are values: a
  \<^verbatim>\<open>throw\<close> that no handler of the callback catches ends the pass.
\<close>

subsection \<open>Strings (std::string, boost::algorithm)\<close>

text \<open>\<^verbatim>\<open>s.find(c)\<close>: the index of the first occurrence, \<open>None\<close> for \<^verbatim>\<open>npos\<close>.\<close>

fun find_char :: "char \<Rightarrow> string \<Rightarrow> nat option" where
  "find_char c [] = None"
| "find_char c (x # xs) =
     (if x = c then Some 0 else map_option Suc (find_char c xs))"

text \<open>\<^verbatim>\<open>s.substr(pos, n)\<close> and \<^verbatim>\<open>s.substr(pos)\<close>, for \<open>pos \<le> length s\<close>.\<close>

definition substr :: "string \<Rightarrow> nat \<Rightarrow> nat \<Rightarrow> string" where
  "substr s pos n = take n (drop pos s)"

definition substr_from :: "string \<Rightarrow> nat \<Rightarrow> string" where
  "substr_from s pos = drop pos s"

fun starts_with :: "string \<Rightarrow> string \<Rightarrow> bool" where
  "starts_with s [] = True"
| "starts_with [] (t # ts) = False"
| "starts_with (x # xs) (t # ts) = (x = t \<and> starts_with xs ts)"

text \<open>\<^verbatim>\<open>s.find(t) != std::string::npos\<close>: \<open>t\<close> occurs in \<open>s\<close>.\<close>

fun str_contains :: "string \<Rightarrow> string \<Rightarrow> bool" where
  "str_contains [] t = (t = [])"
| "str_contains (x # xs) t = (starts_with (x # xs) t \<or> str_contains xs t)"

text \<open>\<^verbatim>\<open>boost::ends_with(input, test)\<close>.\<close>

definition ends_with :: "string \<Rightarrow> string \<Rightarrow> bool" where
  "ends_with input test = starts_with (rev input) (rev test)"

subsection \<open>Exceptions\<close>

datatype exn =
    InvalidArgument       \<comment> \<open>\<^verbatim>\<open>std::invalid_argument\<close>\<close>
  | OutOfRange            \<comment> \<open>\<^verbatim>\<open>std::out_of_range\<close>\<close>
  | BadVariantAccess      \<comment> \<open>\<^verbatim>\<open>std::bad_variant_access\<close>\<close>
  | LogicError            \<comment> \<open>\<^verbatim>\<open>std::logic_error\<close>: a \<^verbatim>\<open>std::string\<close> built from a null pointer\<close>
  | NullDereference       \<comment> \<open>a member read through a null \<^verbatim>\<open>shared_ptr\<close> or a null pointer\<close>

subsection \<open>std::stoi\<close>

text \<open>
  \<^verbatim>\<open>std::stoi(str, nullptr, base)\<close> calls \<^verbatim>\<open>strtol\<close>: leading white space is skipped, one
  optional sign is read, in base 16 an optional \<^verbatim>\<open>0x\<close> before a hexadecimal digit, then the
  longest run of digits of the base; whatever follows is ignored.  No digit at all raises
  \<^verbatim>\<open>std::invalid_argument\<close>; a value outside the range of \<^verbatim>\<open>int\<close> (32 bits) raises
  \<^verbatim>\<open>std::out_of_range\<close>.
\<close>

definition isspace :: "char \<Rightarrow> bool" where
  "isspace c = (c \<in> set [CHR 0x20, CHR 0x09, CHR 0x0A, CHR 0x0B, CHR 0x0C, CHR 0x0D])"

definition digit_of :: "nat \<Rightarrow> char \<Rightarrow> nat option" where
  "digit_of base c =
     (let n = (of_char c :: nat);
          d = (if 48 \<le> n \<and> n \<le> 57 then Some (n - 48)
               else if 97 \<le> n \<and> n \<le> 122 then Some (n - 87)
               else if 65 \<le> n \<and> n \<le> 90 then Some (n - 55)
               else None)
      in case d of None \<Rightarrow> None | Some v \<Rightarrow> if v < base then Some v else None)"

text \<open>The digits read from the front of a string, and what is accumulated from them.\<close>

fun leading_digits :: "nat \<Rightarrow> string \<Rightarrow> nat list" where
  "leading_digits base [] = []"
| "leading_digits base (c # cs) =
     (case digit_of base c of None \<Rightarrow> [] | Some d \<Rightarrow> d # leading_digits base cs)"

fun digits_value :: "nat \<Rightarrow> nat \<Rightarrow> nat list \<Rightarrow> nat" where
  "digits_value base acc [] = acc"
| "digits_value base acc (d # ds) = digits_value base (acc * base + d) ds"

fun skip_sign :: "string \<Rightarrow> bool \<times> string" where
  "skip_sign [] = (False, [])"
| "skip_sign (c # cs) =
     (if c = CHR ''-'' then (True, cs)
      else if c = CHR ''+'' then (False, cs)
      else (False, c # cs))"

fun skip_hex_prefix :: "nat \<Rightarrow> string \<Rightarrow> string" where
  "skip_hex_prefix base (z # x # h # cs) =
     (if base = 16 \<and> z = CHR ''0'' \<and> (x = CHR ''x'' \<or> x = CHR ''X'') \<and> digit_of 16 h \<noteq> None
      then h # cs else z # x # h # cs)"
| "skip_hex_prefix base s = s"

definition strtol :: "nat \<Rightarrow> string \<Rightarrow> int option" where
  "strtol base s =
     (let (neg, t) = skip_sign (dropWhile isspace s);
          ds = leading_digits base (skip_hex_prefix base t)
      in if ds = [] then None
         else Some (if neg then - int (digits_value base 0 ds) else int (digits_value base 0 ds)))"

definition stoi :: "nat \<Rightarrow> string \<Rightarrow> exn + int" where
  "stoi base s =
     (case strtol base s of
        None \<Rightarrow> Inl InvalidArgument
      | Some v \<Rightarrow> if v < - (2 ^ 31) \<or> 2 ^ 31 - 1 < v then Inl OutOfRange else Inr v)"

subsection \<open>Configuration records\<close>

text \<open>
  Floating-point values: a finite value is kept as the rational it denotes.  The callback
  applies two operations to them: the conversion to \<^verbatim>\<open>float\<close> when a value is stored in
  \<^verbatim>\<open>pollRate\<close> (lines 202 and 205), and the comparison \<^verbatim>\<open>pollRate <= 0.0f\<close>, false on a NaN.
\<close>

datatype fp = Finite rat | PosInf | NegInf | NaN

text \<open>
  The conversion to \<^verbatim>\<open>float\<close> (IEEE 754 binary32, rounding to nearest, ties to the even
  significand).  A \<^verbatim>\<open>float\<close> is a multiple of \<open>2 powi (e - 23)\<close>, where \<open>e\<close> is the exponent of
  its binade, from \<open>- 126\<close> (which holds the subnormal values too) to \<open>127\<close>.  \<open>exponent_below\<close>
  looks for the exponent of \<open>a\<close> from \<open>k\<close> downwards, at most \<open>n\<close> times, and \<open>nearest_float\<close>
  rounds a positive \<open>a\<close> to a multiple of the unit of its binade; a value that rounds to
  \<open>2 ^ 128\<close> or more becomes an infinity, and one that rounds to no multiple but zero becomes
  zero.
\<close>

fun exponent_below :: "nat \<Rightarrow> int \<Rightarrow> rat \<Rightarrow> int" where
  "exponent_below 0 k a = k"
| "exponent_below (Suc n) k a = (if 2 powi k \<le> a then k else exponent_below n (k - 1) a)"

definition round_half_even :: "rat \<Rightarrow> int" where
  "round_half_even x =
     (let f = \<lfloor>x\<rfloor>; d = x - of_int f
      in if d < 1 / 2 then f else if 1 / 2 < d then f + 1 else if even f then f else f + 1)"

definition nearest_float :: "rat \<Rightarrow> rat" where
  "nearest_float a =
     (let u = 2 powi (exponent_below 253 127 a - 23)
      in of_int (round_half_even (a / u)) * u)"

definition float_of_rat :: "rat \<Rightarrow> fp" where
  "float_of_rat q =
     (if q = 0 then Finite 0
      else let r = nearest_float \<bar>q\<bar>
           in if 2 ^ 128 \<le> r then (if q < 0 then NegInf else PosInf)
              else Finite (if q < 0 then - r else r))"

fun to_float :: "fp \<Rightarrow> fp" where
  "to_float (Finite q) = float_of_rat q"
| "to_float PosInf = PosInf"
| "to_float NegInf = NegInf"
| "to_float NaN = NaN"

fun fp_le_zero :: "fp \<Rightarrow> bool" where
  "fp_le_zero (Finite q) = (q \<le> 0)"
| "fp_le_zero NegInf = True"
| "fp_le_zero PosInf = False"
| "fp_le_zero NaN = False"

fun fp_gt_zero :: "fp \<Rightarrow> bool" where
  "fp_gt_zero (Finite q) = (0 < q)"
| "fp_gt_zero PosInf = True"
| "fp_gt_zero NegInf = False"
| "fp_gt_zero NaN = False"

definition pollRateDefault :: fp where
  "pollRateDefault = Finite (1 / 2)"

text \<open>
  Modelled from the spec: the value type of a configuration attribute (\<^verbatim>\<open>BasicVariantType\<close>
  of Utils.hpp, which is not among the sources): "typed scalar values (unsigned integer, string,
  floating point)".
\<close>

datatype BasicVariantType = VString string | VUInt64 "64 word" | VDouble fp

type_synonym SensorBaseConfigMap = "string \<rightharpoonup> BasicVariantType"
type_synonym SensorBaseConfiguration = "string \<times> SensorBaseConfigMap"
type_synonym SensorData = "string \<rightharpoonup> SensorBaseConfigMap"
type_synonym ManagedObjectType = "(string \<times> SensorData) list"

text \<open>\<^verbatim>\<open>std::get<uint64_t>\<close> and \<^verbatim>\<open>std::get<std::string>\<close> throw on another alternative.\<close>

fun get_uint64 :: "BasicVariantType \<Rightarrow> exn + 64 word" where
  "get_uint64 (VUInt64 n) = Inr n"
| "get_uint64 v = Inl BadVariantAccess"

fun get_string :: "BasicVariantType \<Rightarrow> exn + string" where
  "get_string (VString s) = Inr s"
| "get_string v = Inl BadVariantAccess"

text \<open>
  \<^verbatim>\<open>sensorTypes\<close> (lines 26 to 28) is an array of 13 pointers initialised with two names:
  the other eleven entries are null pointers, written \<open>None\<close>.
\<close>

definition sensorTypes :: "string option list" where
  "sensorTypes =
     [Some ''xyz.openbmc_project.Configuration.DPS310'',
      Some ''xyz.openbmc_project.Configuration.SI7020''] @ replicate 11 None"

text \<open>
  Lines 106 to 115: the first type of the array found in the record.  The key of
  \<^verbatim>\<open>sensorData->find(type)\<close> is a \<^verbatim>\<open>std::string\<close> built from \<^verbatim>\<open>type\<close>, which throws
  \<^verbatim>\<open>std::logic_error\<close> on a null pointer.
\<close>

fun probeTypes :: "string option list \<Rightarrow> SensorData \<Rightarrow> exn + SensorBaseConfiguration option" where
  "probeTypes [] sd = Inr None"
| "probeTypes (None # ts) sd = Inl LogicError"
| "probeTypes (Some t # ts) sd =
     (case sd t of Some m \<Rightarrow> Inr (Some (t, m)) | None \<Rightarrow> probeTypes ts sd)"

subsection \<open>The Matcher (lines 90 to 143)\<close>

text \<open>
  The pointers declared at lines 90 to 94, \<open>None\<close> for \<^verbatim>\<open>nullptr\<close>.  They are declared outside
  the loop over the records, so what one record leaves in them is seen by the next.
\<close>

record match_vars =
  sensorData :: "SensorData option"
  interfacePath :: "string option"
  sensorType :: "string option"
  baseConfiguration :: "SensorBaseConfiguration option"
  baseConfigMap :: "SensorBaseConfigMap option"

definition match_vars_init :: match_vars where
  "match_vars_init =
     \<lparr>sensorData = None, interfacePath = None, sensorType = None,
      baseConfiguration = None, baseConfigMap = None\<rparr>"

text \<open>How one turn of a loop ends: the next turn, \<^verbatim>\<open>break\<close>, or an exception.\<close>

datatype 'a flow = Continue 'a | Break 'a | Throw exn

text \<open>The body of the loop over the records, for one record (lines 105 to 142).\<close>

definition matchRecord ::
  "string option list \<Rightarrow> 64 word \<Rightarrow> 64 word \<Rightarrow> string \<Rightarrow> string \<times> SensorData \<Rightarrow>
   match_vars \<Rightarrow> string list \<Rightarrow> match_vars flow \<times> string list" where
  "matchRecord types bus addr dn sensor mv out =
     (let mv1 = mv\<lparr>sensorData := Some (snd sensor)\<rparr> in
      case probeTypes types (snd sensor) of
        Inl e \<Rightarrow> (Throw e, out)
      | Inr found \<Rightarrow>
          (let mv2 = (case found of
                        None \<Rightarrow> mv1
                      | Some bc \<Rightarrow> mv1\<lparr>sensorType := Some (fst bc), baseConfiguration := Some bc\<rparr>)
           in case baseConfiguration mv2 of
                None \<Rightarrow>
                  (Continue mv2,
                   out @ [''error finding base configuration for '' @ dn @ ''\<newline>''])
              | Some bc \<Rightarrow>
                  (let mv3 = mv2\<lparr>baseConfigMap := Some (snd bc)\<rparr> in
                   case (snd bc ''Bus'', snd bc ''Address'') of
                     (Some cb, Some ca) \<Rightarrow>
                       (case get_uint64 cb of
                          Inl e \<Rightarrow> (Throw e, out)
                        | Inr b \<Rightarrow>
                            if b \<noteq> bus then (Continue mv3, out)
                            else (case get_uint64 ca of
                                    Inl e \<Rightarrow> (Throw e, out)
                                  | Inr a \<Rightarrow>
                                      if a \<noteq> addr then (Continue mv3, out)
                                      else (Break (mv3\<lparr>interfacePath := Some (fst sensor)\<rparr>),
                                            out)))
                   | _ \<Rightarrow>
                       (Continue mv3,
                        out @ [''error finding bus or address in configuration\<newline>'']))))"

text \<open>The loop over the records (lines 102 to 143).\<close>

fun matchRecords ::
  "string option list \<Rightarrow> 64 word \<Rightarrow> 64 word \<Rightarrow> string \<Rightarrow> ManagedObjectType \<Rightarrow>
   match_vars \<Rightarrow> string list \<Rightarrow> (exn + match_vars) \<times> string list" where
  "matchRecords types bus addr dn [] mv out = (Inr mv, out)"
| "matchRecords types bus addr dn (sensor # rest) mv out =
     (case matchRecord types bus addr dn sensor mv out of
        (Continue mv', out') \<Rightarrow> matchRecords types bus addr dn rest mv' out'
      | (Break mv', out') \<Rightarrow> (Inr mv', out')
      | (Throw e, out') \<Rightarrow> (Inl e, out'))"

subsection \<open>Collaborators, sensors and the state of the engine\<close>

text \<open>
  Modelled from the spec: the power-gating policy (\<^verbatim>\<open>PowerState\<close> of Utils.hpp, which is not
  among the sources), "a declared string enum (defaulting to always read regardless of power
  state when absent)".  The callback names \<^verbatim>\<open>PowerState::always\<close> only; \<open>on\<close> and \<open>biosPost\<close>
  stand for the other policies of the enum.
\<close>

datatype PowerState = always | on | biosPost

text \<open>
  The helpers the callback calls and the sources do not hold are parameters of the model:
  the two visitors of a configuration value (they may throw), the threshold parser (its
  result and the thresholds it filled in) and \<^verbatim>\<open>setReadState\<close>.  The thresholds are of any
  type \<open>'th\<close>.  The value of \<^verbatim>\<open>getPermitSet\<close> (line 222) is never used.
\<close>

record 'th collaborators =
  VariantToStringVisitor :: "BasicVariantType \<Rightarrow> exn + string"
  VariantToFloatVisitor :: "BasicVariantType \<Rightarrow> exn + fp"
  parseThresholdsFromConfig :: "SensorData \<Rightarrow> bool \<times> 'th list"
  setReadState :: "string \<Rightarrow> PowerState \<Rightarrow> PowerState"

text \<open>
  Modelled from the spec: the Sensor (\<^verbatim>\<open>IIOSensor\<close> of IIOSensor.hpp, which is not among
  the sources), "construct(path, kind, identity, name, thresholds, pollRate, configPath,
  powerPolicy, channelKind)", an object that keeps its arguments and whose read loop is
  started by \<^verbatim>\<open>setupRead\<close>.  \<open>object_id\<close> is the identity of the object that
  \<^verbatim>\<open>std::make_shared\<close> allocates: two objects are the same object when it is equal.
\<close>

record 'th IIOSensor =
  object_id :: nat
  path :: string
  objectType :: "string option"
  name :: string
  thresholds :: "'th list"
  pollRate :: fp
  configurationPath :: string
  readState :: PowerState
  sensorTypeName :: string
  reading :: bool

definition setupRead :: "'th IIOSensor \<Rightarrow> 'th IIOSensor" where
  "setupRead s = s\<lparr>reading := True\<rparr>"

text \<open>
  The state the callback works on: the sensor table (a slot holds a \<^verbatim>\<open>shared_ptr\<close>, \<open>None\<close>
  when it is null), the changed-path set of \<^verbatim>\<open>main\<close> in the order its iterator runs through
  it, what was written to \<^verbatim>\<open>std::cerr\<close>, and the number of sensor objects allocated so far.
\<close>

record 'th engine =
  sensors :: "string \<rightharpoonup> 'th IIOSensor option"
  sensorsChanged :: "string list"
  cerr :: "string list"
  allocated :: nat

text \<open>
  A discovered path (line 59) with the name of the device directory that owns it: what
  lines 63 to 69 read from the file system (\<^verbatim>\<open>canonical\<close>, \<^verbatim>\<open>parent_path\<close>, \<^verbatim>\<open>stem\<close>).
\<close>

record found_path =
  pathStr :: string
  deviceName :: string

text \<open>
  How a part of the loop body over the paths ends: it goes on with a result, it ends the
  turn (\<^verbatim>\<open>continue\<close>), or an exception leaves the callback.
\<close>

datatype 'a stage = Proceed 'a | NextDevice | Raise exn

fun stage_bind :: "'a stage \<times> 's \<Rightarrow> ('a \<Rightarrow> 's \<Rightarrow> 'b stage \<times> 's) \<Rightarrow> 'b stage \<times> 's" where
  "stage_bind (Proceed x, s) f = f x s"
| "stage_bind (NextDevice, s) f = (NextDevice, s)"
| "stage_bind (Raise e, s) f = (Raise e, s)"

definition say :: "string \<Rightarrow> 'th engine \<Rightarrow> 'th engine" where
  "say msg st = st\<lparr>cerr := cerr st @ [msg]\<rparr>"

subsection \<open>The Device Identity Resolver (lines 69 to 89)\<close>

text \<open>
  The handler of line 86 catches \<^verbatim>\<open>std::invalid_argument\<close> only.  The two \<^verbatim>\<open>int\<close> values
  are stored in \<^verbatim>\<open>size_t\<close> variables (64 bits here).
\<close>

definition resolveIdentity ::
  "string \<Rightarrow> 'th engine \<Rightarrow> (64 word \<times> 64 word) stage \<times> 'th engine" where
  "resolveIdentity dn st =
     (case find_char CHR ''-'' dn of
        None \<Rightarrow> (NextDevice, say (''found bad device '' @ dn @ ''\<newline>'') st)
      | Some findHyphen \<Rightarrow>
          (case stoi 10 (substr dn 0 findHyphen) of
             Inl e \<Rightarrow> (if e = InvalidArgument then NextDevice else Raise e, st)
           | Inr b \<Rightarrow>
               (case stoi 16 (substr_from dn (findHyphen + 1)) of
                  Inl e \<Rightarrow> (if e = InvalidArgument then NextDevice else Raise e, st)
                | Inr a \<Rightarrow> (Proceed (word_of_int b, word_of_int a), st))))"

text \<open>The channel kind read from the path (lines 95 to 100).\<close>

definition inferSensorTypeName :: "string \<Rightarrow> string" where
  "inferSensorTypeName ps =
     (if str_contains ps ''pressure'' then ''pressure''
      else if str_contains ps ''humidity'' then ''humidity''
      else ''temperature'')"

text \<open>The Matcher as a part of the loop body: the pointers start null for every path.\<close>

definition findMatch ::
  "ManagedObjectType \<Rightarrow> string \<Rightarrow> 64 word \<times> 64 word \<Rightarrow> 'th engine \<Rightarrow>
   match_vars stage \<times> 'th engine" where
  "findMatch sensorConfigurations dn ident st =
     (case matchRecords sensorTypes (fst ident) (snd ident) dn sensorConfigurations
             match_vars_init (cerr st) of
        (Inl e, out) \<Rightarrow> (Raise e, st\<lparr>cerr := out\<rparr>)
      | (Inr mv, out) \<Rightarrow> (Proceed mv, st\<lparr>cerr := out\<rparr>))"

subsection \<open>After the match: type check and name (lines 144 to 172)\<close>

definition readName ::
  "'th collaborators \<Rightarrow> string \<Rightarrow> string \<Rightarrow> match_vars \<Rightarrow> 'th engine \<Rightarrow>
   string stage \<times> 'th engine" where
  "readName ext dn kind mv st =
     (case interfacePath mv of
        None \<Rightarrow> (NextDevice, say (''failed to find match for '' @ dn @ ''\<newline>'') st)
      | Some ip \<Rightarrow>
          (case baseConfigMap mv of
             None \<Rightarrow> (Raise NullDereference, st)
           | Some m \<Rightarrow>
               (case m ''SensorType'' of
                  None \<Rightarrow>
                    (NextDevice,
                     say (''failed to find the sensor type for '' @ dn @ ''\<newline>'') st)
                | Some tv \<Rightarrow>
                    (case VariantToStringVisitor ext tv of
                       Inl e \<Rightarrow> (Raise e, st)
                     | Inr configSensorTypeName \<Rightarrow>
                         (let st1 =
                            (if kind \<noteq> configSensorTypeName
                             then say (''config sensor type '' @ configSensorTypeName @
                                       '' doesn'' @ [CHR 0x27] @ ''t match sensor type '' @
                                       kind @ ''\<newline>'') st
                             else st)
                          in case m ''Name'' of
                               None \<Rightarrow>
                                 (NextDevice,
                                  say (''could not determine configuration name for '' @ dn @
                                       ''\<newline>'') st1)
                             | Some nv \<Rightarrow>
                                 (case get_string nv of
                                    Inl e \<Rightarrow> (Raise e, st1)
                                  | Inr sensorName \<Rightarrow> (Proceed sensorName, st1)))))))"

subsection \<open>The Reconciler (lines 173 to 193)\<close>

text \<open>
  The loop of lines 178 to 188 over the changed-path set: \<open>Some\<close> of the set without the
  first entry that ends with the stored sensor's name, \<open>None\<close> when no entry does.  The name
  is read through the slot's pointer.
\<close>

fun eraseChanged :: "'th IIOSensor option \<Rightarrow> string list \<Rightarrow> exn + string list option" where
  "eraseChanged slot [] = Inr None"
| "eraseChanged slot (x # xs) =
     (case slot of
        None \<Rightarrow> Inl NullDereference
      | Some s \<Rightarrow>
          if ends_with x (name s) then Inr (Some xs)
          else (case eraseChanged slot xs of
                  Inr (Some r) \<Rightarrow> Inr (Some (x # r))
                | other \<Rightarrow> other))"

definition reconcile :: "bool \<Rightarrow> string \<Rightarrow> 'th engine \<Rightarrow> unit stage \<times> 'th engine" where
  "reconcile firstScan sensorName st =
     (case sensors st sensorName of
        None \<Rightarrow> (Proceed (), st)
      | Some slot \<Rightarrow>
          if firstScan then (Proceed (), st)
          else (case eraseChanged slot (sensorsChanged st) of
                  Inl e \<Rightarrow> (Raise e, st)
                | Inr None \<Rightarrow> (NextDevice, st)
                | Inr (Some rest) \<Rightarrow>
                    (Proceed (),
                     st\<lparr>sensors := (sensors st)(sensorName \<mapsto> None),
                        sensorsChanged := rest\<rparr>)))"

subsection \<open>Constructing the sensor (lines 194 to 228)\<close>

text \<open>
  Lines 201 to 211.  \<^verbatim>\<open>pollRate\<close> is a \<^verbatim>\<open>float\<close> (line 202): what the visitor returns is
  converted to \<^verbatim>\<open>float\<close> when it is stored at line 205, and the comparison of line 207 is
  made on the stored value.
\<close>

definition effectivePollRate :: "'th collaborators \<Rightarrow> SensorBaseConfigMap \<Rightarrow> exn + fp" where
  "effectivePollRate ext m =
     (case m ''PollRate'' of
        None \<Rightarrow> Inr pollRateDefault
      | Some v \<Rightarrow>
          (case VariantToFloatVisitor ext v of
             Inl e \<Rightarrow> Inl e
           | Inr r \<Rightarrow>
               (let stored = to_float r
                in Inr (if fp_le_zero stored then pollRateDefault else stored))))"

text \<open>Lines 213 to 220.\<close>

definition effectiveReadState ::
  "'th collaborators \<Rightarrow> SensorBaseConfigMap \<Rightarrow> exn + PowerState" where
  "effectiveReadState ext m =
     (case m ''PowerState'' of
        None \<Rightarrow> Inr always
      | Some v \<Rightarrow>
          (case VariantToStringVisitor ext v of
             Inl e \<Rightarrow> Inl e
           | Inr powerState \<Rightarrow> Inr (setReadState ext powerState always)))"

definition construct ::
  "'th collaborators \<Rightarrow> found_path \<Rightarrow> string \<Rightarrow> match_vars \<Rightarrow> string \<Rightarrow> 'th engine \<Rightarrow>
   unit stage \<times> 'th engine" where
  "construct ext p kind mv sensorName st =
     (case sensorData mv of
        None \<Rightarrow> (Raise NullDereference, st)
      | Some sd \<Rightarrow>
          (let parsed = parseThresholdsFromConfig ext sd;
               st1 = (if \<not> fst parsed
                      then say (''error populating thresholds for '' @ sensorName @
                                ''\<newline>'') st
                      else st)
           in case baseConfiguration mv of
                None \<Rightarrow> (Raise NullDereference, st1)
              | Some bc \<Rightarrow>
                  (case effectivePollRate ext (snd bc) of
                     Inl e \<Rightarrow> (Raise e, st1)
                   | Inr rate \<Rightarrow>
                       (case effectiveReadState ext (snd bc) of
                          Inl e \<Rightarrow> (Raise e, st1)
                        | Inr rs \<Rightarrow>
                            (case baseConfigMap mv of
                               None \<Rightarrow> (Raise NullDereference, st1)
                             | Some m \<Rightarrow>
                                 (case interfacePath mv of
                                    None \<Rightarrow> (Raise NullDereference, st1)
                                  | Some ip \<Rightarrow>
                                      (Proceed (),
                                       st1\<lparr>sensors := (sensors st1)(sensorName \<mapsto>
                                              Some (setupRead
                                                \<lparr>object_id = allocated st1,
                                                 path = pathStr p,
                                                 objectType = sensorType mv,
                                                 name = sensorName,
                                                 thresholds = snd parsed,
                                                 pollRate = rate,
                                                 configurationPath = ip,
                                                 readState = rs,
                                                 sensorTypeName = kind,
                                                 reading = False\<rparr>)),
                                           allocated := allocated st1 + 1\<rparr>)))))))"

subsection \<open>One rescan pass (lines 43 to 229)\<close>

text \<open>
  The first part of the loop body (lines 61 to 172): the identity, the matching record and
  the sensor's name.  It changes nothing but what is written to \<^verbatim>\<open>std::cerr\<close>.
\<close>

definition identifySensor ::
  "'th collaborators \<Rightarrow> ManagedObjectType \<Rightarrow> found_path \<Rightarrow> 'th engine \<Rightarrow>
   (match_vars \<times> string) stage \<times> 'th engine" where
  "identifySensor ext sensorConfigurations p st =
     stage_bind (resolveIdentity (deviceName p) st) (\<lambda>ident st1.
     stage_bind (findMatch sensorConfigurations (deviceName p) ident st1) (\<lambda>mv st2.
     stage_bind (readName ext (deviceName p) (inferSensorTypeName (pathStr p)) mv st2)
       (\<lambda>sensorName st3. (Proceed (mv, sensorName), st3))))"

text \<open>The body of the loop over the discovered paths (lines 61 to 228).\<close>

definition processDevice ::
  "'th collaborators \<Rightarrow> bool \<Rightarrow> ManagedObjectType \<Rightarrow> found_path \<Rightarrow> 'th engine \<Rightarrow>
   unit stage \<times> 'th engine" where
  "processDevice ext firstScan sensorConfigurations p st =
     stage_bind (identifySensor ext sensorConfigurations p st) (\<lambda>found st3.
     stage_bind (reconcile firstScan (snd found) st3) (\<lambda>u st4.
     construct ext p (inferSensorTypeName (pathStr p)) (fst found) (snd found) st4))"

text \<open>
  The loop over the paths (line 59).  An exception that leaves the body leaves the loop
  and the callback: the result is \<open>Some\<close> of it, with the state as it was when it was thrown.
\<close>

fun processPaths ::
  "'th collaborators \<Rightarrow> bool \<Rightarrow> ManagedObjectType \<Rightarrow> found_path list \<Rightarrow> 'th engine \<Rightarrow>
   exn option \<times> 'th engine" where
  "processPaths ext firstScan sensorConfigurations [] st = (None, st)"
| "processPaths ext firstScan sensorConfigurations (p # ps) st =
     (case processDevice ext firstScan sensorConfigurations p st of
        (Raise e, st') \<Rightarrow> (Some e, st')
      | (r, st') \<Rightarrow> processPaths ext firstScan sensorConfigurations ps st')"

text \<open>
  The callback (lines 42 to 230).  \<open>firstScan\<close> is line 43: the pointer \<^verbatim>\<open>sensorsChanged\<close>
  given to \<^verbatim>\<open>createSensors\<close> is null.  \<open>paths\<close> is what the three calls of \<^verbatim>\<open>findFiles\<close> found.
  The configuration is what the callback is called with; the request for it (lines 231 and
  232), which \<^verbatim>\<open>createSensors\<close> itself makes, is \<open>requestConfiguration\<close> below.
\<close>

definition createSensors ::
  "'th collaborators \<Rightarrow> bool \<Rightarrow> ManagedObjectType \<Rightarrow> found_path list \<Rightarrow> 'th engine \<Rightarrow>
   exn option \<times> 'th engine" where
  "createSensors ext firstScan sensorConfigurations paths st =
     (if paths = [] then (None, say ''No IIO sensors in system\<newline>'' st)
      else processPaths ext firstScan sensorConfigurations paths st)"

subsection \<open>The Change Debouncer (lines 251 to 277)\<close>

record message =
  is_method_error :: bool
  get_path :: string

text \<open>
  What \<^verbatim>\<open>main\<close> holds besides the engine: the time left on the wait of \<^verbatim>\<open>filterTimer\<close>, in
  seconds (\<open>None\<close> when no wait is outstanding); the calls of \<^verbatim>\<open>createSensors\<close> whose
  configuration has not arrived yet, each with its \<open>firstScan\<close>; the changed-path set at
  each call that the timer's handler made (line 274); and the exception that left a
  handler, which ends \<^verbatim>\<open>io.run()\<close> and the process.
\<close>

record 'th main_state =
  engine_state :: "'th engine"
  filterTimer :: "rat option"
  pending :: "bool list"
  rescans :: "string list list"
  terminated :: "exn option"


text \<open>
  The end of \<^verbatim>\<open>createSensors\<close> (lines 231 and 232): the argument of \<^verbatim>\<open>getConfiguration\<close> is
  a vector of \<^verbatim>\<open>std::string\<close> built from the thirteen entries of \<^verbatim>\<open>sensorTypes\<close>, and a
  \<^verbatim>\<open>std::string\<close> built from a null pointer throws \<^verbatim>\<open>std::logic_error\<close>.
\<close>

fun typeNames :: "string option list \<Rightarrow> exn + string list" where
  "typeNames [] = Inr []"
| "typeNames (None # ts) = Inl LogicError"
| "typeNames (Some t # ts) =
     (case typeNames ts of Inl e \<Rightarrow> Inl e | Inr names \<Rightarrow> Inr (t # names))"

text \<open>
  A call of \<^verbatim>\<open>createSensors\<close> by a handler of \<^verbatim>\<open>main\<close>: the callback waits for the
  configuration once the request is made; an exception thrown while the request is built
  leaves \<^verbatim>\<open>createSensors\<close>, the handler and \<^verbatim>\<open>io.run()\<close>.
\<close>

definition requestConfiguration :: "bool \<Rightarrow> 'th main_state \<Rightarrow> 'th main_state" where
  "requestConfiguration firstScan ms =
     (case typeNames sensorTypes of
        Inl e \<Rightarrow> ms\<lparr>terminated := Some e\<rparr>
      | Inr names \<Rightarrow> ms\<lparr>pending := pending ms @ [firstScan]\<rparr>)"

text \<open>
  \<^verbatim>\<open>eventHandler\<close>: \<^verbatim>\<open>insert\<close> into the \<^verbatim>\<open>flat_set\<close> keeps it sorted and without duplicates;
  \<^verbatim>\<open>expires_from_now\<close> cancels the outstanding wait, whose handler then returns at line 267,
  and \<^verbatim>\<open>async_wait\<close> starts a wait of one second.
\<close>

definition eventHandler :: "message \<Rightarrow> 'th main_state \<Rightarrow> 'th main_state" where
  "eventHandler msg ms =
     (if is_method_error msg
      then ms\<lparr>engine_state := say ''callback method error\<newline>'' (engine_state ms)\<rparr>
      else ms\<lparr>engine_state := (engine_state ms)
                  \<lparr>sensorsChanged := insort_insert (get_path msg)
                                       (sensorsChanged (engine_state ms))\<rparr>,
              filterTimer := Some 1\<rparr>)"

text \<open>
  Time passing: a wait that has \<open>r\<close> seconds left completes once \<open>r\<close> seconds have
  passed, and its handler (lines 263 to 276) calls \<^verbatim>\<open>createSensors\<close> with the set
  (line 274).
\<close>

definition elapse :: "rat \<Rightarrow> 'th main_state \<Rightarrow> 'th main_state" where
  "elapse dt ms =
     (case filterTimer ms of
        None \<Rightarrow> ms
      | Some r \<Rightarrow>
          if dt < r then ms\<lparr>filterTimer := Some (r - dt)\<rparr>
          else requestConfiguration False
                 (ms\<lparr>filterTimer := None,
                     rescans := rescans ms @ [sensorsChanged (engine_state ms)]\<rparr>))"

text \<open>
  The outstanding wait completes with an error other than the cancellation (line 269): the
  handler writes a message and returns.
\<close>

definition timerFailure :: "'th main_state \<Rightarrow> 'th main_state" where
  "timerFailure ms =
     (case filterTimer ms of
        None \<Rightarrow> ms
      | Some r \<Rightarrow>
          ms\<lparr>engine_state := say ''timer error\<newline>'' (engine_state ms), filterTimer := None\<rparr>)"

text \<open>
  The configuration asked for by the oldest call of \<^verbatim>\<open>createSensors\<close> arrives: its callback
  runs, with the paths that \<^verbatim>\<open>findFiles\<close> finds then.
\<close>

definition configurationArrives ::
  "'th collaborators \<Rightarrow> ManagedObjectType \<Rightarrow> found_path list \<Rightarrow> 'th main_state \<Rightarrow>
   'th main_state" where
  "configurationArrives ext sensorConfigurations paths ms =
     (case pending ms of
        [] \<Rightarrow> ms
      | firstScan # others \<Rightarrow>
          (let r = createSensors ext firstScan sensorConfigurations paths (engine_state ms)
           in ms\<lparr>engine_state := snd r, pending := others, terminated := fst r\<rparr>))"

datatype event =
    Notification message
  | Elapse rat
  | TimerFailure
  | Configuration ManagedObjectType "found_path list"

fun handle :: "'th collaborators \<Rightarrow> event \<Rightarrow> 'th main_state \<Rightarrow> 'th main_state" where
  "handle ext (Notification msg) ms = eventHandler msg ms"
| "handle ext (Elapse dt) ms = elapse dt ms"
| "handle ext TimerFailure ms = timerFailure ms"
| "handle ext (Configuration sensorConfigurations paths) ms =
     configurationArrives ext sensorConfigurations paths ms"

text \<open>\<^verbatim>\<open>io.run()\<close> (line 289) over the events, until an exception leaves a handler.\<close>

fun run :: "'th collaborators \<Rightarrow> event list \<Rightarrow> 'th main_state \<Rightarrow> 'th main_state" where
  "run ext [] ms = ms"
| "run ext (ev # evs) ms =
     (if terminated ms \<noteq> None then ms else run ext evs (handle ext ev ms))"


section \<open>Predicates of the statements and examples\<close>

text \<open>
  A base-configuration map declares the identity \<open>(bus, addr)\<close>; the pointers of the Matcher
  hold no match (yet): no path is taken, and the base configuration an earlier record left
  behind, if any, does not declare the identity.
\<close>

definition matches :: "64 word \<Rightarrow> 64 word \<Rightarrow> SensorBaseConfigMap \<Rightarrow> bool" where
  "matches bus addr m = (m ''Bus'' = Some (VUInt64 bus) \<and> m ''Address'' = Some (VUInt64 addr))"

definition unmatched :: "64 word \<Rightarrow> 64 word \<Rightarrow> match_vars \<Rightarrow> bool" where
  "unmatched bus addr mv =
     (interfacePath mv = None \<and>
      (case baseConfiguration mv of None \<Rightarrow> True | Some bc \<Rightarrow> \<not> matches bus addr (snd bc)))"

text \<open>
  After optional white space and one optional sign, the string starts with a digit of the
  base.
\<close>

definition begins_with_number :: "nat \<Rightarrow> string \<Rightarrow> bool" where
  "begins_with_number base s =
     (case snd (skip_sign (dropWhile isspace s)) of
        [] \<Rightarrow> False
      | c # cs \<Rightarrow> digit_of base c \<noteq> None)"

text \<open>
  The spec's words for a device name: "the owning directory name must contain exactly one
  separating hyphen splitting it into a decimal bus token and a hexadecimal address token".
\<close>

definition spec_device_name :: "string \<Rightarrow> bool" where
  "spec_device_name dn =
     (count_list dn CHR ''-'' = 1 \<and>
      (case find_char CHR ''-'' dn of
         None \<Rightarrow> False
       | Some i \<Rightarrow>
           take i dn \<noteq> [] \<and> list_all (\<lambda>c. digit_of 10 c \<noteq> None) (take i dn) \<and>
           drop (Suc i) dn \<noteq> [] \<and> list_all (\<lambda>c. digit_of 16 c \<noteq> None) (drop (Suc i) dn)))"

text \<open>
  Examples: collaborators that read a string as it is and a number as the \<^verbatim>\<open>float\<close> nearest
  to it; for each configuration record its base-configuration map, the record, the path of
  its device and what the Matcher holds once it has matched the record.
\<close>

definition example_collaborators :: "string collaborators" where
  "example_collaborators =
     \<lparr>VariantToStringVisitor =
        (\<lambda>v. case v of VString s \<Rightarrow> Inr s | _ \<Rightarrow> Inl InvalidArgument),
      VariantToFloatVisitor =
        (\<lambda>v. case v of VDouble d \<Rightarrow> Inr (to_float d)
                       | VUInt64 n \<Rightarrow> Inr (float_of_rat (of_nat (unat n)))
                       | VString s \<Rightarrow> Inl InvalidArgument),
      parseThresholdsFromConfig = (\<lambda>sd. (True, [])),
      setReadState =
        (\<lambda>s d. if s = ''On'' then on else if s = ''BiosPost'' then biosPost
                else if s = ''Always'' then always else d)\<rparr>"

definition DPS310 :: string where
  "DPS310 = ''xyz.openbmc_project.Configuration.DPS310''"

definition SI7020 :: string where
  "SI7020 = ''xyz.openbmc_project.Configuration.SI7020''"

definition matched :: "string \<times> SensorData \<Rightarrow> string \<Rightarrow> SensorBaseConfigMap \<Rightarrow> match_vars" where
  "matched sensor tag m =
     \<lparr>sensorData = Some (snd sensor), interfacePath = Some (fst sensor), sensorType = Some tag,
      baseConfiguration = Some (tag, m), baseConfigMap = Some m\<rparr>"

definition config_A :: SensorBaseConfigMap where
  "config_A =
     [''Bus'' \<mapsto> VUInt64 7, ''Address'' \<mapsto> VUInt64 0x76, ''Name'' \<mapsto> VString ''A'',
      ''SensorType'' \<mapsto> VString ''pressure'', ''PollRate'' \<mapsto> VDouble (Finite 2)]"

definition record_A :: "string \<times> SensorData" where
  "record_A = (''/inventory/A'', [DPS310 \<mapsto> config_A])"

definition path_A :: found_path where
  "path_A = \<lparr>pathStr = ''/sys/bus/iio/devices/iio:device0/in_temp_input'',
             deviceName = ''7-0076''\<rparr>"

definition config_B :: SensorBaseConfigMap where
  "config_B =
     [''Bus'' \<mapsto> VUInt64 8, ''Address'' \<mapsto> VUInt64 0x40, ''Name'' \<mapsto> VString ''B'',
      ''SensorType'' \<mapsto> VString ''humidity'', ''PollRate'' \<mapsto> VDouble (Finite 0)]"

definition record_B :: "string \<times> SensorData" where
  "record_B = (''/inventory/B'', [SI7020 \<mapsto> config_B])"

definition path_B :: found_path where
  "path_B = \<lparr>pathStr = ''/sys/bus/iio/devices/iio:device1/in_humidity_input'',
             deviceName = ''8-0040''\<rparr>"

text \<open>A record without \<^verbatim>\<open>SensorType\<close>, one without \<^verbatim>\<open>Name\<close>, one without \<^verbatim>\<open>Bus\<close>.\<close>

definition config_C :: SensorBaseConfigMap where
  "config_C =
     [''Bus'' \<mapsto> VUInt64 9, ''Address'' \<mapsto> VUInt64 0x10, ''Name'' \<mapsto> VString ''C'']"

definition record_C :: "string \<times> SensorData" where
  "record_C = (''/inventory/C'', [DPS310 \<mapsto> config_C])"

definition path_C :: found_path where
  "path_C = \<lparr>pathStr = ''/sys/bus/iio/devices/iio:device2/in_pressure_input'',
             deviceName = ''9-0010''\<rparr>"

definition config_D :: SensorBaseConfigMap where
  "config_D =
     [''Bus'' \<mapsto> VUInt64 10, ''Address'' \<mapsto> VUInt64 0x11,
      ''SensorType'' \<mapsto> VString ''temperature'']"

definition record_D :: "string \<times> SensorData" where
  "record_D = (''/inventory/D'', [DPS310 \<mapsto> config_D])"

definition path_D :: found_path where
  "path_D = \<lparr>pathStr = ''/sys/bus/iio/devices/iio:device3/in_temp_input'',
             deviceName = ''10-0011''\<rparr>"

definition config_E :: SensorBaseConfigMap where
  "config_E =
     [''Address'' \<mapsto> VUInt64 0x76, ''Name'' \<mapsto> VString ''E'',
      ''SensorType'' \<mapsto> VString ''temperature'']"

definition record_E :: "string \<times> SensorData" where
  "record_E = (''/inventory/E'', [SI7020 \<mapsto> config_E])"

text \<open>The state before the first scan.\<close>

definition engine_init :: "string engine" where
  "engine_init = \<lparr>sensors = Map.empty, sensorsChanged = [], cerr = [], allocated = 0\<rparr>"

text \<open>The sensors the first scan constructs for the devices of \<open>record_A\<close> and \<open>record_B\<close>.\<close>

definition sensor_A :: "string IIOSensor" where
  "sensor_A =
     \<lparr>object_id = 0, path = ''/sys/bus/iio/devices/iio:device0/in_temp_input'',
      objectType = Some DPS310, name = ''A'', thresholds = [], pollRate = Finite 2,
      configurationPath = ''/inventory/A'', readState = always,
      sensorTypeName = ''temperature'', reading = True\<rparr>"

definition sensor_B :: "string IIOSensor" where
  "sensor_B =
     \<lparr>object_id = 1, path = ''/sys/bus/iio/devices/iio:device1/in_humidity_input'',
      objectType = Some SI7020, name = ''B'', thresholds = [], pollRate = pollRateDefault,
      configurationPath = ''/inventory/B'', readState = always,
      sensorTypeName = ''humidity'', reading = True\<rparr>"

definition warning_A :: string where
  "warning_A = ''config sensor type pressure doesn'' @ [CHR 0x27] @
               ''t match sensor type temperature\<newline>''"

definition engine_A :: "string engine" where
  "engine_A = \<lparr>sensors = [''A'' \<mapsto> Some sensor_A], sensorsChanged = [],
                cerr = [warning_A], allocated = 1\<rparr>"

definition engine_AB :: "string engine" where
  "engine_AB = \<lparr>sensors = [''A'' \<mapsto> Some sensor_A, ''B'' \<mapsto> Some sensor_B],
                 sensorsChanged = [], cerr = [warning_A], allocated = 2\<rparr>"

text \<open>
  The state when a rescan starts: the sensors of \<open>record_A\<close> and \<open>record_B\<close> exist and a change of
  \<open>record_A\<close> has been notified.
\<close>

definition engine_rescan :: "string engine" where
  "engine_rescan = \<lparr>sensors = [''A'' \<mapsto> Some sensor_A, ''B'' \<mapsto> Some sensor_B],
                     sensorsChanged = [''/inventory/A''], cerr = [], allocated = 2\<rparr>"

text \<open>
  A device directory whose name has two hyphens, with the path of a channel below it.
\<close>

definition path_two_hyphens :: found_path where
  "path_two_hyphens = \<lparr>pathStr = ''/sys/bus/iio/devices/iio:device4/in_temp_input'',
                        deviceName = ''7-76-1''\<rparr>"

text \<open>A record whose \<^verbatim>\<open>Bus\<close> is a string, and a device directory named as sysfs names a driver.\<close>

definition config_F :: SensorBaseConfigMap where
  "config_F =
     [''Bus'' \<mapsto> VString ''7'', ''Address'' \<mapsto> VUInt64 0x76, ''Name'' \<mapsto> VString ''F'',
      ''SensorType'' \<mapsto> VString ''temperature'']"

definition record_F :: "string \<times> SensorData" where
  "record_F = (''/inventory/F'', [DPS310 \<mapsto> config_F])"

definition path_hwmon :: found_path where
  "path_hwmon = \<lparr>pathStr = ''/sys/bus/iio/devices/iio:device5/in_temp_input'',
                  deviceName = ''iio-hwmon''\<rparr>"





text \<open>
  The number that a configuration value declares, as the \<^verbatim>\<open>float\<close> nearest to it; a string
  declares none.
\<close>

fun declared_float :: "BasicVariantType \<Rightarrow> fp option" where
  "declared_float (VDouble d) = Some (to_float d)"
| "declared_float (VUInt64 n) = Some (float_of_rat (of_nat (unat n)))"
| "declared_float (VString s) = None"

text \<open>
  The example collaborators with a visitor that returns the number as it is, as a visitor
  whose result is a \<^verbatim>\<open>double\<close> would; the number is then converted at line 205.
\<close>

definition exact_collaborators :: "string collaborators" where
  "exact_collaborators =
     example_collaborators
       \<lparr>VariantToFloatVisitor :=
          (\<lambda>v. case v of VDouble d \<Rightarrow> Inr d
                         | VUInt64 n \<Rightarrow> Inr (Finite (of_nat (unat n)))
                         | VString s \<Rightarrow> Inl InvalidArgument)\<rparr>"

text \<open>A positive number below every positive \<^verbatim>\<open>float\<close>; it is a \<^verbatim>\<open>double\<close>.\<close>

definition tiny_rate :: rat where
  "tiny_rate = 1 / 2 ^ 200"

text \<open>
  A record with the four required fields and the \<^verbatim>\<open>PollRate\<close> given, if any; the path of its
  device and the sensor the first scan constructs for it, with its poll rate.
\<close>

definition config_G :: "BasicVariantType option \<Rightarrow> SensorBaseConfigMap" where
  "config_G declared =
     [''Bus'' \<mapsto> VUInt64 11, ''Address'' \<mapsto> VUInt64 0x20, ''Name'' \<mapsto> VString ''G'',
      ''SensorType'' \<mapsto> VString ''pressure''](''PollRate'' := declared)"

definition record_G :: "BasicVariantType option \<Rightarrow> string \<times> SensorData" where
  "record_G declared = (''/inventory/G'', [DPS310 \<mapsto> config_G declared])"

definition path_G :: found_path where
  "path_G = \<lparr>pathStr = ''/sys/bus/iio/devices/iio:device6/in_pressure_input'',
             deviceName = ''11-0020''\<rparr>"

definition sensor_G :: "fp \<Rightarrow> string IIOSensor" where
  "sensor_G rate =
     \<lparr>object_id = 0, path = ''/sys/bus/iio/devices/iio:device6/in_pressure_input'',
      objectType = Some DPS310, name = ''G'', thresholds = [], pollRate = rate,
      configurationPath = ''/inventory/G'', readState = always,
      sensorTypeName = ''pressure'', reading = True\<rparr>"

definition engine_G :: "fp \<Rightarrow> string engine" where
  "engine_G rate = \<lparr>sensors = [''G'' \<mapsto> Some (sensor_G rate)], sensorsChanged = [],
                     cerr = [], allocated = 1\<rparr>"

section \<open>Properties\<close>

subsection \<open>The conversion to float\<close>

lemma exponent_below_found:
  assumes "2 powi k \<le> a" and "a < 2 powi (k + 1)" and "K - int n \<le> k" and "k \<le> K"
  shows "exponent_below n K a = k"
  using assms
proof (induction n arbitrary: K)
  case 0
  then show ?case by simp
next
  case (Suc n)
  show ?case
  proof (cases "2 powi K \<le> a")
    case True
    have "K \<le> k"
    proof (rule ccontr)
      assume "\<not> K \<le> k"
      then have "k + 1 \<le> K" by simp
      then have "(2::rat) powi (k + 1) \<le> 2 powi K" by (rule power_int_increasing) simp
      with True Suc.prems(2) show False by simp
    qed
    with Suc.prems(4) True show ?thesis by simp
  next
    case False
    with Suc.prems(1) have "K \<noteq> k" by auto
    with Suc.prems Suc.IH[of "K - 1"] False show ?thesis by simp
  qed
qed

lemma exponent_below_least:
  "a < 2 powi (K - int n + 1) \<Longrightarrow> exponent_below n K a = K - int n"
proof (induction n arbitrary: K)
  case 0
  show ?case by simp
next
  case (Suc n)
  have "(2::rat) powi (K - int (Suc n) + 1) \<le> 2 powi K"
    by (rule power_int_increasing) simp_all
  with Suc.prems have "\<not> 2 powi K \<le> a" by simp
  moreover from Suc.prems have "a < 2 powi (K - 1 - int n + 1)" by (simp add: algebra_simps)
  from Suc.IH[OF this] have "exponent_below n (K - 1) a = K - 1 - int n" .
  ultimately show ?case by simp
qed

text \<open>
  A positive value of at most \<open>1 / 2 ^ 150\<close>, half of the least positive \<^verbatim>\<open>float\<close>, becomes
  zero.
\<close>

lemma float_of_rat_underflow:
  assumes "0 < q" and "q \<le> 1 / 2 ^ 150"
  shows "float_of_rat q = Finite 0"
proof -
  from assms(2) have "q < 2 powi (127 - int 253 + 1)" by simp
  from exponent_below_least[OF this] have e: "exponent_below 253 127 q = - 126" by simp
  define x where "x = q * 2 ^ 149"
  from assms have x: "0 < x" "x \<le> 1 / 2" by (simp_all add: x_def)
  then have "\<lfloor>x\<rfloor> = 0" by (simp add: floor_eq_iff)
  with x have "round_half_even x = 0" by (simp add: round_half_even_def Let_def)
  moreover have "q / 2 powi (- 126 - 23) = x" by (simp add: x_def power_int_minus field_simps)
  ultimately show ?thesis
    using assms(1) by (simp add: float_of_rat_def nearest_float_def e Let_def)
qed

lemma float_of_rat_0: "float_of_rat 0 = Finite 0"
  by (simp add: float_of_rat_def)

lemma float_of_rat_2: "float_of_rat 2 = Finite 2"
proof -
  have "exponent_below 253 127 2 = 1" by (rule exponent_below_found) simp_all
  then show ?thesis
    by (simp add: float_of_rat_def nearest_float_def round_half_even_def Let_def)
qed

lemma float_of_rat_minus_1: "float_of_rat (- 1) = Finite (- 1)"
proof -
  have "exponent_below 253 127 1 = 0" by (rule exponent_below_found) simp_all
  then show ?thesis
    by (simp add: float_of_rat_def nearest_float_def round_half_even_def Let_def)
qed

lemma float_of_rat_3: "float_of_rat 3 = Finite 3"
proof -
  have "exponent_below 253 127 3 = 1" by (rule exponent_below_found) simp_all
  then show ?thesis
    by (simp add: float_of_rat_def nearest_float_def round_half_even_def Let_def)
qed

text \<open>
  A value that the conversion gives is a \<^verbatim>\<open>float\<close>: converting it again gives the same value.
\<close>

lemma exponent_below_range: "K - int n \<le> exponent_below n K a \<and> exponent_below n K a \<le> K"
proof (induction n arbitrary: K)
  case 0
  show ?case by simp
next
  case (Suc n)
  from Suc.IH[of "K - 1"] show ?case by auto
qed

lemma exponent_below_le:
  "K - int n < exponent_below n K a \<Longrightarrow> 2 powi exponent_below n K a \<le> a"
proof (induction n arbitrary: K)
  case 0
  then show ?case by simp
next
  case (Suc n)
  show ?case
  proof (cases "2 powi K \<le> a")
    case True
    then show ?thesis by simp
  next
    case False
    with Suc.prems have "K - 1 - int n < exponent_below n (K - 1) a" by simp
    from Suc.IH[OF this] False show ?thesis by simp
  qed
qed

lemma exponent_below_less:
  "exponent_below n K a < K \<Longrightarrow> a < 2 powi (exponent_below n K a + 1)"
proof (induction n arbitrary: K)
  case 0
  then show ?case by simp
next
  case (Suc n)
  show ?case
  proof (cases "2 powi K \<le> a")
    case True
    with Suc.prems show ?thesis by simp
  next
    case False
    show ?thesis
    proof (cases "exponent_below n (K - 1) a < K - 1")
      case True
      from Suc.IH[OF this] False show ?thesis by simp
    next
      case b: False
      with exponent_below_range[of "K - 1" n a] have "exponent_below n (K - 1) a = K - 1" by simp
      with False show ?thesis by simp
    qed
  qed
qed

lemma round_half_even_int: "round_half_even (of_int m) = m"
  by (simp add: round_half_even_def)

lemma round_half_even_le:
  assumes "x \<le> of_int m"
  shows "round_half_even x \<le> m"
proof -
  from assms have f: "\<lfloor>x\<rfloor> \<le> m" by (simp add: floor_le_iff) 
  show ?thesis
  proof (cases "x = of_int \<lfloor>x\<rfloor>")
    case True
    then have "round_half_even x = \<lfloor>x\<rfloor>"
      by (metis round_half_even_int)
    with f show ?thesis by simp
  next
    case False
    with of_int_floor_le[of x] have "of_int \<lfloor>x\<rfloor> < x" by linarith
    with assms have "(of_int \<lfloor>x\<rfloor> :: rat) < of_int m" by simp
    then have "\<lfloor>x\<rfloor> < m" by simp
    then show ?thesis by (simp add: round_half_even_def Let_def)
  qed
qed

lemma round_half_even_nonneg: "0 \<le> x \<Longrightarrow> 0 \<le> round_half_even x"
  by (simp add: round_half_even_def Let_def)

lemma float_of_rat_nearest:
  "float_of_rat q =
     (if q = 0 then Finite 0
      else if 2 ^ 128 \<le> nearest_float \<bar>q\<bar> then (if q < 0 then NegInf else PosInf)
      else Finite (if q < 0 then - nearest_float \<bar>q\<bar> else nearest_float \<bar>q\<bar>))"
  by (simp add: float_of_rat_def Let_def)

lemma nearest_float_nonneg: "0 \<le> a \<Longrightarrow> 0 \<le> nearest_float a"
  by (simp add: nearest_float_def Let_def round_half_even_nonneg)

lemma nearest_float_fixed:
  assumes a: "0 < a" and b: "0 < nearest_float a" "nearest_float a < 2 ^ 128"
  shows "nearest_float (nearest_float a) = nearest_float a"
proof -
  define e where "e = exponent_below 253 127 a"
  define n where "n = round_half_even (a / 2 powi (e - 23))"
  define b where "b = nearest_float a"
  have bn: "b = of_int n * 2 powi (e - 23)"
    by (simp add: b_def nearest_float_def Let_def n_def e_def)
  define e' where "e' = exponent_below 253 127 b"
  from exponent_below_range[of 127 253 a] have er: "- 126 \<le> e" "e \<le> 127" by (simp_all add: e_def)
  from exponent_below_range[of 127 253 b] have er': "- 126 \<le> e'" "e' \<le> 127"
    by (simp_all add: e'_def)
  from assms(2) have bpos: "0 < b" by (simp add: b_def)
  have u: "(0::rat) < 2 powi (e - 23)" by simp
  from bpos bn u have npos: "0 < n"
    by (simp add: zero_less_mult_iff)
  have nle: "n \<le> 2 ^ 24"
  proof (cases "e < 127")
    case True
    then have "a < 2 powi (e + 1)"
      using exponent_below_less[of 253 127 a] by (simp add: e_def)
    also have "(2::rat) powi (e + 1) = 2 ^ 24 * 2 powi (e - 23)"
      using power_int_add[of "2::rat" 24 "e - 23"] by (simp add: add.commute)
    finally have "a / 2 powi (e - 23) \<le> of_int (2 ^ 24)"
      by (simp add: pos_divide_le_eq)
    from round_half_even_le[OF this] show ?thesis by (simp add: n_def)
  next
    case False
    with er have e127: "e = 127" by simp
    from assms(3) have "of_int n * (2::rat) ^ 104 < 2 ^ 24 * 2 ^ 104"
      using bn by (simp add: b_def[symmetric] e127)
    then have "(of_int n :: rat) < of_int (2 ^ 24)" by simp
    then have "n < 2 ^ 24" by (simp only: of_int_less_iff)
    then show ?thesis by simp
  qed
  have ble: "b \<le> 2 powi (e + 1)"
  proof -
    from nle have "(of_int n :: rat) \<le> of_int (2 ^ 24)" by (simp only: of_int_le_iff)
    then have "(of_int n :: rat) \<le> 2 ^ 24" by simp
    then have "b \<le> 2 ^ 24 * 2 powi (e - 23)" by (simp add: bn)
    also have "\<dots> = 2 powi (e + 1)"
      using power_int_add[of "2::rat" 24 "e - 23"] by (simp add: add.commute)
    finally show ?thesis .
  qed
  have "\<exists>m. b / 2 powi (e' - 23) = of_int m"
  proof (cases "e' \<le> e")
    case True
    define k where "k = nat (e - e')"
    from True have k: "e - 23 = (e' - 23) + int k" by (simp add: k_def)
    have "(2::rat) powi (e - 23) = 2 powi (e' - 23) * 2 ^ k"
      unfolding k by (simp add: power_int_add)
    then have "b / 2 powi (e' - 23) = of_int (n * 2 ^ k)" by (simp add: bn)
    then show ?thesis ..
  next
    case False
    then have lt: "- 126 < e'" using er by simp
    from exponent_below_le[of 127 253 b] lt have "2 powi e' \<le> b" by (simp add: e'_def)
    with ble have "(2::rat) powi e' \<le> 2 powi (e + 1)" by simp
    have "e' \<le> e + 1"
    proof (rule ccontr)
      assume "\<not> e' \<le> e + 1"
      then have "e + 1 < e'" by simp
      then have "(2::rat) powi (e + 1) < 2 powi e'" by (rule power_int_strict_increasing) simp
      with \<open>(2::rat) powi e' \<le> 2 powi (e + 1)\<close> show False by simp
    qed
    with False have e1: "e' = e + 1" by simp
    with \<open>2 powi e' \<le> b\<close> ble have "b = 2 powi (e + 1)" by simp
    then have "b / 2 powi (e' - 23) = 2 powi (e + 1) / 2 powi (e - 22)" by (simp add: e1)
    also have "\<dots> = 2 powi 23"
      using power_int_diff[of "2::rat" "e + 1" "e - 22"] by simp
    also have "\<dots> = of_int (2 ^ 23)" by simp
    finally show ?thesis ..
  qed
  then obtain m where m: "b / 2 powi (e' - 23) = of_int m" ..
  have "nearest_float b = of_int m * 2 powi (e' - 23)"
    by (simp add: nearest_float_def Let_def e'_def[symmetric] m round_half_even_int)
  also have "\<dots> = b" using m by (simp add: field_simps)
  finally show ?thesis by (simp add: b_def)
qed

lemma float_of_rat_fixed:
  assumes "float_of_rat q = Finite r"
  shows "float_of_rat r = Finite r"
proof (cases "q = 0")
  case True
  with assms show ?thesis by (simp add: float_of_rat_def)
next
  case False
  then have a: "0 < \<bar>q\<bar>" by simp
  from assms False have fin: "nearest_float \<bar>q\<bar> < 2 ^ 128"
    and r: "r = (if q < 0 then - nearest_float \<bar>q\<bar> else nearest_float \<bar>q\<bar>)"
    by (auto simp: float_of_rat_nearest split: if_splits)
  show ?thesis
  proof (cases "nearest_float \<bar>q\<bar> = 0")
    case True
    have "r = 0" unfolding r True by simp
    then show ?thesis by (simp add: float_of_rat_def)
  next
    case nz: False
    with nearest_float_nonneg[of "\<bar>q\<bar>"] have pos: "0 < nearest_float \<bar>q\<bar>" by simp
    define b where "b = nearest_float \<bar>q\<bar>"
    from nearest_float_fixed[OF a pos fin] have fb: "nearest_float b = b" by (simp add: b_def)
    from pos fin have b: "0 < b" "b < 2 ^ 128" by (simp_all add: b_def)
    with fb have "float_of_rat b = Finite b" "float_of_rat (- b) = Finite (- b)"
      by (simp_all add: float_of_rat_nearest)
    moreover from r have "r = (if q < 0 then - b else b)" by (simp only: b_def)
    ultimately show ?thesis by simp
  qed
qed

lemma to_float_idem: "to_float (to_float x) = to_float x"
proof (cases x)
  case (Finite q)
  show ?thesis
  proof (cases "float_of_rat q")
    case (Finite r)
    from float_of_rat_fixed[OF this] Finite \<open>x = Finite q\<close> show ?thesis by simp
  qed (simp_all add: Finite)
qed simp_all

subsection \<open>The Matcher\<close>

lemma probeTypes_Some:
  "probeTypes types sd = Inr (Some (tag, m)) \<Longrightarrow> Some tag \<in> set types \<and> sd tag = Some m"
  by (induction types sd rule: probeTypes.induct) (auto split: option.splits)

lemma get_uint64_Inr: "get_uint64 v = Inr n \<longleftrightarrow> v = VUInt64 n"
  by (cases v) auto

lemma matchRecord_Break:
  assumes "matchRecord types bus addr dn sensor mv out = (Break mv', out')"
      and "unmatched bus addr mv"
  shows "\<exists>tag m. probeTypes types (snd sensor) = Inr (Some (tag, m)) \<and> matches bus addr m \<and>
           mv' = \<lparr>sensorData = Some (snd sensor), interfacePath = Some (fst sensor),
                  sensorType = Some tag, baseConfiguration = Some (tag, m),
                  baseConfigMap = Some m\<rparr> \<and> out' = out"
  using assms
  by (auto simp: matchRecord_def unmatched_def matches_def get_uint64_Inr Let_def
           split: sum.splits option.splits if_splits prod.splits)

lemma matchRecord_Continue:
  assumes "matchRecord types bus addr dn sensor mv out = (Continue mv', out')"
      and "unmatched bus addr mv"
  shows "unmatched bus addr mv'"
  using assms
  by (auto simp: matchRecord_def unmatched_def matches_def get_uint64_Inr Let_def
           split: sum.splits option.splits if_splits prod.splits)

lemma matchRecords_matched:
  assumes "matchRecords types bus addr dn cfgs mv out = (Inr mv', out')"
      and "unmatched bus addr mv"
      and "interfacePath mv' = Some ip"
  shows "\<exists>sd tag m. (ip, sd) \<in> set cfgs \<and> Some tag \<in> set types \<and> sd tag = Some m \<and>
           matches bus addr m \<and>
           mv' = \<lparr>sensorData = Some sd, interfacePath = Some ip, sensorType = Some tag,
                  baseConfiguration = Some (tag, m), baseConfigMap = Some m\<rparr>"
  using assms
proof (induction cfgs arbitrary: mv out)
  case Nil
  then show ?case by (simp add: unmatched_def)
next
  case (Cons sensor rest)
  obtain fl o1 where step: "matchRecord types bus addr dn sensor mv out = (fl, o1)"
    by (cases "matchRecord types bus addr dn sensor mv out")
  show ?case
  proof (cases fl)
    case (Continue mv1)
    with step Cons.prems have "matchRecords types bus addr dn rest mv1 o1 = (Inr mv', out')"
      by simp
    moreover from step Continue Cons.prems(2) have "unmatched bus addr mv1"
      by (auto dest: matchRecord_Continue)
    ultimately show ?thesis using Cons.IH Cons.prems(3) by fastforce
  next
    case (Break mv1)
    with step Cons.prems have eq: "mv1 = mv'" by simp
    from matchRecord_Break[OF step[unfolded Break] Cons.prems(2)] obtain tag m where
      "probeTypes types (snd sensor) = Inr (Some (tag, m))" "matches bus addr m"
      "mv1 = \<lparr>sensorData = Some (snd sensor), interfacePath = Some (fst sensor),
                  sensorType = Some tag, baseConfiguration = Some (tag, m),
                  baseConfigMap = Some m\<rparr>" by blast
    with eq Cons.prems(3) probeTypes_Some show ?thesis
      by (intro exI[of _ "snd sensor"] exI[of _ tag] exI[of _ m]) (cases sensor, auto)
  next
    case (Throw e)
    with step Cons.prems show ?thesis by simp
  qed
qed

lemma unmatched_init: "unmatched bus addr match_vars_init"
  by (simp add: unmatched_def match_vars_init_def)

subsection \<open>The parts of the loop body\<close>

lemma stage_bind_Proceed:
  "stage_bind x f = (Proceed y, s') \<Longrightarrow> \<exists>a s. x = (Proceed a, s) \<and> f a s = (Proceed y, s')"
proof -
  obtain r s where x: "x = (r, s)" by (cases x)
  assume "stage_bind x f = (Proceed y, s')"
  with x show ?thesis by (cases r) auto
qed

lemma get_string_Inr: "get_string v = Inr s \<longleftrightarrow> v = VString s"
  by (cases v) auto

lemma resolveIdentity_Proceed:
  "resolveIdentity dn st = (Proceed ident, st1) \<Longrightarrow> st1 = st"
  by (auto simp: resolveIdentity_def split: option.splits sum.splits if_splits)

lemma resolveIdentity_only_cerr:
  "resolveIdentity dn st = (r, st1) \<Longrightarrow> st1 = st\<lparr>cerr := cerr st1\<rparr>"
  by (auto simp: resolveIdentity_def say_def split: option.splits sum.splits if_splits)

lemma findMatch_only_cerr:
  "findMatch cfgs dn ident st = (r, st1) \<Longrightarrow> st1 = st\<lparr>cerr := cerr st1\<rparr>"
  by (auto simp: findMatch_def split: prod.splits sum.splits)

lemma readName_only_cerr:
  "readName ext dn kind mv st = (r, st1) \<Longrightarrow> st1 = st\<lparr>cerr := cerr st1\<rparr>"
  by (auto simp: readName_def say_def Let_def split: option.splits sum.splits if_splits)

lemma only_cerr_trans:
  "st1 = st\<lparr>cerr := c1\<rparr> \<Longrightarrow> st2 = st1\<lparr>cerr := c2\<rparr> \<Longrightarrow> st2 = st\<lparr>cerr := cerr st2\<rparr>"
  by simp

lemma findMatch_matched:
  assumes "findMatch cfgs dn ident st = (Proceed mv, st')"
      and "interfacePath mv = Some ip"
  shows "\<exists>sd tag m. (ip, sd) \<in> set cfgs \<and> Some tag \<in> set sensorTypes \<and> sd tag = Some m \<and>
           matches (fst ident) (snd ident) m \<and>
           mv = \<lparr>sensorData = Some sd, interfacePath = Some ip, sensorType = Some tag,
                 baseConfiguration = Some (tag, m), baseConfigMap = Some m\<rparr>"
proof -
  from assms(1) obtain out where
    "matchRecords sensorTypes (fst ident) (snd ident) dn cfgs match_vars_init (cerr st) = (Inr mv, out)"
    by (auto simp: findMatch_def split: prod.splits sum.splits)
  from matchRecords_matched[OF this unmatched_init assms(2)] show ?thesis .
qed

lemma readName_Proceed:
  assumes "readName ext dn kind mv st = (Proceed sn, st1)"
  shows "\<exists>ip m tv declared. interfacePath mv = Some ip \<and> baseConfigMap mv = Some m \<and>
           m ''SensorType'' = Some tv \<and> VariantToStringVisitor ext tv = Inr declared \<and>
           m ''Name'' = Some (VString sn)"
  using assms
  by (auto simp: readName_def Let_def get_string_Inr split: option.splits sum.splits if_splits)

lemma identifySensor_only_cerr:
  assumes "identifySensor ext cfgs p st = (r, st3)"
  shows "st3 = st\<lparr>cerr := cerr st3\<rparr>"
proof -
  obtain r1 st1 where a: "resolveIdentity (deviceName p) st = (r1, st1)" by force
  note a' = resolveIdentity_only_cerr[OF a]
  show ?thesis
  proof (cases r1)
    case (Proceed ident)
    obtain r2 st2 where b: "findMatch cfgs (deviceName p) ident st1 = (r2, st2)" by force
    note b' = findMatch_only_cerr[OF b]
    show ?thesis
    proof (cases r2)
      case (Proceed mv)
      obtain r3 st3' where c: "readName ext (deviceName p) (inferSensorTypeName (pathStr p)) mv st2 = (r3, st3')" by force
      note c' = readName_only_cerr[OF c]
      from assms a b c \<open>r1 = Proceed ident\<close> \<open>r2 = Proceed mv\<close> have "st3 = st3'"
        by (cases r3) (auto simp: identifySensor_def)
      with a' b' c' show ?thesis by (metis only_cerr_trans)
    next
      case NextDevice
      with assms a b \<open>r1 = Proceed ident\<close> have "st3 = st2" by (auto simp: identifySensor_def)
      with a' b' show ?thesis by (metis only_cerr_trans)
    next
      case (Raise e)
      with assms a b \<open>r1 = Proceed ident\<close> have "st3 = st2" by (auto simp: identifySensor_def)
      with a' b' show ?thesis by (metis only_cerr_trans)
    qed
  next
    case NextDevice
    with assms a a' show ?thesis by (auto simp: identifySensor_def)
  next
    case (Raise e)
    with assms a a' show ?thesis by (auto simp: identifySensor_def)
  qed
qed

lemma identifySensor_Proceed:
  assumes "identifySensor ext cfgs p st = (Proceed (mv, sn), st3)"
  shows "\<exists>ident st2 ip sd tag m tv declared.
           resolveIdentity (deviceName p) st = (Proceed ident, st) \<and>
           findMatch cfgs (deviceName p) ident st = (Proceed mv, st2) \<and>
           readName ext (deviceName p) (inferSensorTypeName (pathStr p)) mv st2 = (Proceed sn, st3) \<and>
           (ip, sd) \<in> set cfgs \<and> Some tag \<in> set sensorTypes \<and> sd tag = Some m \<and>
           matches (fst ident) (snd ident) m \<and>
           mv = \<lparr>sensorData = Some sd, interfacePath = Some ip, sensorType = Some tag,
                 baseConfiguration = Some (tag, m), baseConfigMap = Some m\<rparr> \<and>
           m ''SensorType'' = Some tv \<and> VariantToStringVisitor ext tv = Inr declared \<and>
           m ''Name'' = Some (VString sn)"
proof -
  from assms[unfolded identifySensor_def] obtain ident st1 where
    a: "resolveIdentity (deviceName p) st = (Proceed ident, st1)" and
    a2: "stage_bind (findMatch cfgs (deviceName p) ident st1) (\<lambda>mv st2.
     stage_bind (readName ext (deviceName p) (inferSensorTypeName (pathStr p)) mv st2)
       (\<lambda>sensorName st3. (Proceed (mv, sensorName), st3))) = (Proceed (mv, sn), st3)"
    by (blast dest: stage_bind_Proceed)
  from a have st1: "st1 = st" by (rule resolveIdentity_Proceed)
  from a2 obtain mv' st2 where
    b: "findMatch cfgs (deviceName p) ident st1 = (Proceed mv', st2)" and
    b2: "stage_bind (readName ext (deviceName p) (inferSensorTypeName (pathStr p)) mv' st2)
       (\<lambda>sensorName st3. (Proceed (mv', sensorName), st3)) = (Proceed (mv, sn), st3)"
    by (blast dest: stage_bind_Proceed)
  from b2 obtain sn' st3' where
    c: "readName ext (deviceName p) (inferSensorTypeName (pathStr p)) mv' st2 = (Proceed sn', st3')"
    and c2: "(Proceed (mv', sn'), st3') = (Proceed (mv, sn), st3)"
    by (blast dest: stage_bind_Proceed)
  from c2 have eqs: "mv' = mv" "sn' = sn" "st3' = st3" by auto
  from readName_Proceed[OF c[unfolded eqs]] obtain ip m tv declared where
    rn: "interfacePath mv = Some ip" "baseConfigMap mv = Some m"
        "m ''SensorType'' = Some tv" "VariantToStringVisitor ext tv = Inr declared"
        "m ''Name'' = Some (VString sn)" by blast
  from findMatch_matched[OF b[unfolded eqs st1] rn(1)] obtain sd tag m' where
    fm: "(ip, sd) \<in> set cfgs" "Some tag \<in> set sensorTypes" "sd tag = Some m'"
        "matches (fst ident) (snd ident) m'"
        "mv = \<lparr>sensorData = Some sd, interfacePath = Some ip, sensorType = Some tag,
                 baseConfiguration = Some (tag, m'), baseConfigMap = Some m'\<rparr>" by blast
  from fm(5) rn(2) have "m' = m" by simp
  with a b c rn fm st1 eqs show ?thesis by blast
qed

lemma leading_digits_Nil:
  "leading_digits base t = [] \<longleftrightarrow> (case t of [] \<Rightarrow> True | c # cs \<Rightarrow> digit_of base c = None)"
  by (cases t) (auto split: option.splits)

lemma digit_of_zero_16: "digit_of 16 CHR ''0'' = Some 0"
  by (simp add: digit_of_def)

lemma leading_digits_skip_hex_prefix:
  "leading_digits base (skip_hex_prefix base t) = [] \<longleftrightarrow> leading_digits base t = []"
  by (cases "(base, t)" rule: skip_hex_prefix.cases)
     (auto simp: digit_of_zero_16 split: option.splits)

lemma strtol_None_iff: "strtol base s = None \<longleftrightarrow> \<not> begins_with_number base s"
proof -
  obtain neg t where t: "skip_sign (dropWhile isspace s) = (neg, t)" by force
  have "strtol base s = None \<longleftrightarrow> leading_digits base (skip_hex_prefix base t) = []"
    by (simp add: strtol_def t Let_def)
  also have "\<dots> \<longleftrightarrow> leading_digits base t = []"
    by (rule leading_digits_skip_hex_prefix)
  also have "\<dots> \<longleftrightarrow> \<not> begins_with_number base s"
    by (simp add: begins_with_number_def t leading_digits_Nil split: list.splits)
  finally show ?thesis .
qed

lemma stoi_InvalidArgument_iff:
  "stoi base s = Inl InvalidArgument \<longleftrightarrow> \<not> begins_with_number base s"
  by (auto simp: stoi_def strtol_None_iff[symmetric] split: option.splits)

lemma find_char_None: "find_char c s = None \<longleftrightarrow> c \<notin> set s"
  by (induction s) auto

lemma find_char_Some:
  "find_char c s = Some i \<Longrightarrow> i < length s \<and> s ! i = c \<and> c \<notin> set (take i s)"
proof (induction s arbitrary: i)
  case Nil
  then show ?case by simp
next
  case (Cons x xs)
  show ?case
  proof (cases "x = c")
    case True
    with Cons.prems show ?thesis by simp
  next
    case False
    with Cons.prems obtain j where j: "find_char c xs = Some j" "i = Suc j" by auto
    from Cons.IH[OF j(1)] j(2) False show ?thesis by auto
  qed
qed

lemma eraseChanged_find:
  "eraseChanged (Some s) xs =
     Inr (case find (\<lambda>x. ends_with x (name s)) xs of
            None \<Rightarrow> None
          | Some e \<Rightarrow> Some (remove1 e xs))"
proof (induction xs)
  case Nil
  show ?case by simp
next
  case (Cons x xs)
  show ?case
  proof (cases "ends_with x (name s)")
    case True
    then show ?thesis by simp
  next
    case False
    show ?thesis
    proof (cases "find (\<lambda>x. ends_with x (name s)) xs")
      case None
      with False Cons.IH show ?thesis by simp
    next
      case (Some e)
      then have "ends_with e (name s)" by (auto simp: find_Some_iff)
      with False have "e \<noteq> x" by auto
      with False Some Cons.IH show ?thesis by simp
    qed
  qed
qed

lemma construct_matched:
  assumes "mv = \<lparr>sensorData = Some sd, interfacePath = Some ip, sensorType = Some tag,
                 baseConfiguration = Some (tag, m), baseConfigMap = Some m\<rparr>"
      and "effectivePollRate ext m = Inr rate"
      and "effectiveReadState ext m = Inr rs"
  shows "\<exists>st' s. construct ext p kind mv sn st = (Proceed (), st') \<and>
           sensors st' = (sensors st)(sn \<mapsto> Some s) \<and>
           sensorsChanged st' = sensorsChanged st \<and>
           allocated st' = allocated st + 1 \<and>
           set (cerr st) \<subseteq> set (cerr st') \<and>
           s = \<lparr>object_id = allocated st, path = pathStr p, objectType = Some tag, name = sn,
                thresholds = snd (parseThresholdsFromConfig ext sd), pollRate = rate,
                configurationPath = ip, readState = rs, sensorTypeName = kind,
                reading = True\<rparr>"
  using assms by (auto simp: construct_def Let_def say_def setupRead_def)

lemma construct_Proceed:
  assumes "mv = \<lparr>sensorData = Some sd, interfacePath = Some ip, sensorType = Some tag,
                 baseConfiguration = Some (tag, m), baseConfigMap = Some m\<rparr>"
      and "construct ext p kind mv sn st = (Proceed u, st')"
  shows "\<exists>rate rs. effectivePollRate ext m = Inr rate \<and> effectiveReadState ext m = Inr rs"
  using assms by (auto simp: construct_def Let_def split: sum.splits)

lemma construct_no_sensor:
  assumes "construct ext p kind mv sn st = (r, st')" and "r \<noteq> Proceed ()"
  shows "st' = st\<lparr>cerr := cerr st'\<rparr>"
  using assms by (auto simp: construct_def Let_def say_def split: sum.splits option.splits if_splits)

lemma reconcile_first_scan: "reconcile True sn st = (Proceed (), st)"
  by (simp add: reconcile_def split: option.splits)

lemma reconcile_new_name: "sensors st sn = None \<Longrightarrow> reconcile fs sn st = (Proceed (), st)"
  by (simp add: reconcile_def)

lemma reconcile_incremental:
  assumes "sensors st sn = Some (Some old)"
  shows "reconcile False sn st =
           (case find (\<lambda>x. ends_with x (name old)) (sensorsChanged st) of
              None \<Rightarrow> (NextDevice, st)
            | Some e \<Rightarrow> (Proceed (), st\<lparr>sensors := (sensors st)(sn \<mapsto> None),
                                        sensorsChanged := remove1 e (sensorsChanged st)\<rparr>))"
  using assms by (simp add: reconcile_def eraseChanged_find split: option.splits)

subsection \<open>Evaluation\<close>

lemmas eval_defs =
  stoi_def strtol_def digit_of_def isspace_def substr_def substr_from_def
  resolveIdentity_def findMatch_def sensorTypes_def matchRecord_def match_vars_init_def
  readName_def inferSensorTypeName_def reconcile_def construct_def say_def
  effectivePollRate_def effectiveReadState_def setupRead_def
  identifySensor_def processDevice_def createSensors_def
  float_of_rat_0 float_of_rat_2

lemmas example_defs =
  example_collaborators_def DPS310_def SI7020_def matched_def engine_init_def
  config_A_def record_A_def path_A_def config_B_def record_B_def path_B_def
  config_C_def record_C_def path_C_def config_D_def record_D_def path_D_def
  config_E_def record_E_def

subsection \<open>The record the Matcher selects\<close>

text \<open>
  C1.  Whenever the Matcher leaves a path in \<^verbatim>\<open>interfacePath\<close>, one record of the
  configuration has that path, holds a base configuration under one of the supported types,
  and declares in it the bus and the address of the device; the record, the type, the base
  configuration and its map that the pointers hold are those of that same record, and a
  sensor constructed from the pointers has the path, the type, the thresholds, the poll
  rate and the power policy of that record.
\<close>

theorem matcher_selects_one_record:
  assumes "findMatch sensorConfigurations dn (bus, addr) st = (Proceed mv, st')"
      and "interfacePath mv = Some ip"
  shows "\<exists>sd tag m. (ip, sd) \<in> set sensorConfigurations \<and> Some tag \<in> set sensorTypes \<and>
           sd tag = Some m \<and>
           m ''Bus'' = Some (VUInt64 bus) \<and> m ''Address'' = Some (VUInt64 addr) \<and>
           sensorData mv = Some sd \<and> sensorType mv = Some tag \<and>
           baseConfiguration mv = Some (tag, m) \<and> baseConfigMap mv = Some m \<and>
           (\<forall>(ext :: 'th collaborators) p kind sn stx stx'.
              construct ext p kind mv sn stx = (Proceed (), stx') \<longrightarrow>
                (\<exists>s. sensors stx' sn = Some (Some s) \<and>
                   configurationPath s = ip \<and> objectType s = Some tag \<and>
                   thresholds s = snd (parseThresholdsFromConfig ext sd) \<and>
                   effectivePollRate ext m = Inr (pollRate s) \<and>
                   effectiveReadState ext m = Inr (readState s)))"
proof -
  from findMatch_matched[OF assms] obtain sd tag m where
    r: "(ip, sd) \<in> set sensorConfigurations" "Some tag \<in> set sensorTypes" "sd tag = Some m"
       "matches bus addr m" and
    mv: "mv = \<lparr>sensorData = Some sd, interfacePath = Some ip, sensorType = Some tag,
                baseConfiguration = Some (tag, m), baseConfigMap = Some m\<rparr>"
    by auto
  have "\<exists>s. sensors stx' sn = Some (Some s) \<and>
              configurationPath s = ip \<and> objectType s = Some tag \<and>
              thresholds s = snd (parseThresholdsFromConfig ext sd) \<and>
              effectivePollRate ext m = Inr (pollRate s) \<and>
              effectiveReadState ext m = Inr (readState s)"
    if c: "construct ext p kind mv sn stx = (Proceed (), stx')"
    for ext :: "'th collaborators" and p kind sn stx stx'
  proof -
    from construct_Proceed[OF mv c] obtain rate rs where
      conv: "effectivePollRate ext m = Inr rate" "effectiveReadState ext m = Inr rs"
      by blast
    from construct_matched[OF mv conv, of p kind sn stx] c obtain s where
      "sensors stx' = (sensors stx)(sn \<mapsto> Some s)"
      "s = \<lparr>object_id = allocated stx, path = pathStr p, objectType = Some tag, name = sn,
            thresholds = snd (parseThresholdsFromConfig ext sd), pollRate = rate,
            configurationPath = ip, readState = rs, sensorTypeName = kind,
            reading = True\<rparr>"
      by auto
    with conv show ?thesis by simp
  qed
  with r mv show ?thesis by (simp add: matches_def)
qed

theorem matcher_selects_one_record_witness:
  "findMatch [record_B, record_A] ''7-0076'' (7, 0x76) engine_init =
     (Proceed (matched record_A DPS310 config_A), engine_init) \<and>
   interfacePath (matched record_A DPS310 config_A) = Some ''/inventory/A'' \<and>
   (\<exists>sd tag m. (''/inventory/A'', sd) \<in> set [record_B, record_A] \<and>
      Some tag \<in> set sensorTypes \<and> sd tag = Some m \<and>
      m ''Bus'' = Some (VUInt64 7) \<and> m ''Address'' = Some (VUInt64 0x76) \<and>
      sensorData (matched record_A DPS310 config_A) = Some sd \<and>
      sensorType (matched record_A DPS310 config_A) = Some tag \<and>
      baseConfiguration (matched record_A DPS310 config_A) = Some (tag, m) \<and>
      baseConfigMap (matched record_A DPS310 config_A) = Some m \<and>
      (\<forall>(ext :: string collaborators) p kind sn stx stx'.
         construct ext p kind (matched record_A DPS310 config_A) sn stx = (Proceed (), stx') \<longrightarrow>
           (\<exists>s. sensors stx' sn = Some (Some s) \<and>
              configurationPath s = ''/inventory/A'' \<and> objectType s = Some tag \<and>
              thresholds s = snd (parseThresholdsFromConfig ext sd) \<and>
              effectivePollRate ext m = Inr (pollRate s) \<and>
              effectiveReadState ext m = Inr (readState s))))"
proof -
  have h1: "findMatch [record_B, record_A] ''7-0076'' (7, 0x76) engine_init =
              (Proceed (matched record_A DPS310 config_A), engine_init)"
    by (simp add: eval_defs example_defs)
  have h2: "interfacePath (matched record_A DPS310 config_A) = Some ''/inventory/A''"
    by (simp add: matched_def record_A_def)
  from matcher_selects_one_record[OF h1 h2] h1 h2 show ?thesis by simp
qed

subsection \<open>What a turn of the loop leaves unchanged\<close>

lemma only_cerr_fields:
  assumes "st1 = st\<lparr>cerr := c\<rparr>"
  shows "sensors st1 = sensors st" "sensorsChanged st1 = sensorsChanged st"
        "allocated st1 = allocated st"
  using assms by simp_all

lemma processDevice_identified:
  "identifySensor ext cfgs p st = (Proceed (mv, sn), st1) \<Longrightarrow>
   processDevice ext fs cfgs p st =
     stage_bind (reconcile fs sn st1)
       (\<lambda>u st4. construct ext p (inferSensorTypeName (pathStr p)) mv sn st4)"
  by (simp add: processDevice_def)

lemma processDevice_skipped:
  "identifySensor ext cfgs p st = (NextDevice, st1) \<Longrightarrow>
   processDevice ext fs cfgs p st = (NextDevice, st1)"
  by (simp add: processDevice_def)

lemma processDevice_raised:
  "identifySensor ext cfgs p st = (Raise e, st1) \<Longrightarrow>
   processDevice ext fs cfgs p st = (Raise e, st1)"
  by (simp add: processDevice_def)

lemma identifySensor_matched:
  assumes "resolveIdentity (deviceName p) st = (Proceed ident, st1)"
      and "findMatch cfgs (deviceName p) ident st1 = (Proceed mv, st2)"
  shows "identifySensor ext cfgs p st =
           stage_bind (readName ext (deviceName p) (inferSensorTypeName (pathStr p)) mv st2)
             (\<lambda>sensorName st3. (Proceed (mv, sensorName), st3))"
  using assms by (simp add: identifySensor_def)

lemma matched_only_cerr:
  assumes "resolveIdentity (deviceName p) st = (Proceed ident, st1)"
      and "findMatch cfgs (deviceName p) ident st1 = (Proceed mv, st2)"
  shows "st2 = st\<lparr>cerr := cerr st2\<rparr>"
  using resolveIdentity_Proceed[OF assms(1)] findMatch_only_cerr[OF assms(2)] by simp

lemma reconcile_cases:
  assumes "reconcile fs sn st = (r, st')"
  shows "(r = Proceed () \<and> (st' = st \<or> (\<exists>rest. st' = st\<lparr>sensors := (sensors st)(sn \<mapsto> None),
                                                 sensorsChanged := rest\<rparr>))) \<or>
         (r \<noteq> Proceed () \<and> st' = st)"
  using assms by (auto simp: reconcile_def split: option.splits if_splits sum.splits)

lemma processDevice_no_sensor:
  assumes "processDevice ext fs cfgs p st = (r, st')" and "r \<noteq> Proceed ()"
  shows "allocated st' = allocated st \<and>
         (\<forall>sn s. sensors st' sn = Some (Some s) \<longrightarrow> sensors st sn = Some (Some s))"
proof -
  obtain r1 st1 where id: "identifySensor ext cfgs p st = (r1, st1)" by force
  note oc = identifySensor_only_cerr[OF id]
  show ?thesis
  proof (cases r1)
    case (Proceed found)
    obtain mv sn where found: "found = (mv, sn)" by (cases found)
    note pd = processDevice_identified[OF id[unfolded Proceed found], of fs]
    obtain r2 st2 where rc: "reconcile fs sn st1 = (r2, st2)" by force
    from reconcile_cases[OF rc] show ?thesis
    proof
      assume a: "r2 = Proceed () \<and> (st2 = st1 \<or> (\<exists>rest. st2 = st1\<lparr>sensors := (sensors st1)(sn \<mapsto> None),
                                                 sensorsChanged := rest\<rparr>))"
      with pd rc assms(1) have
        c: "construct ext p (inferSensorTypeName (pathStr p)) mv sn st2 = (r, st')" by simp
      note cn = construct_no_sensor[OF c assms(2)]
      from a have "allocated st2 = allocated st1 \<and>
         (\<forall>k s. sensors st2 k = Some (Some s) \<longrightarrow> sensors st1 k = Some (Some s))"
        by (auto split: if_splits)
      moreover have "allocated st' = allocated st2" "sensors st' = sensors st2"
        using only_cerr_fields[OF cn] by simp_all
      moreover have "allocated st1 = allocated st" "sensors st1 = sensors st"
        using only_cerr_fields[OF oc] by simp_all
      ultimately show ?thesis by simp
    next
      assume a: "r2 \<noteq> Proceed () \<and> st2 = st1"
      with pd rc assms(1) have "st' = st1" by (cases r2) auto
      moreover have "allocated st1 = allocated st" "sensors st1 = sensors st"
        using only_cerr_fields[OF oc] by simp_all
      ultimately show ?thesis by simp
    qed
  next
    case NextDevice
    with id assms(1) have "st' = st1" by (simp add: processDevice_skipped)
    moreover have "allocated st1 = allocated st" "sensors st1 = sensors st"
      using only_cerr_fields[OF oc] by simp_all
    ultimately show ?thesis by simp
  next
    case (Raise e)
    with id assms(1) have "st' = st1" by (simp add: processDevice_raised)
    moreover have "allocated st1 = allocated st" "sensors st1 = sensors st"
      using only_cerr_fields[OF oc] by simp_all
    ultimately show ?thesis by simp
  qed
qed

text \<open>
  C10.  When the record that matched has no \<^verbatim>\<open>SensorType\<close> in its base-configuration map,
  the turn of the device ends at line 155 with the message of line 154: the sensor table,
  the changed-path set and the number of sensor objects are what they were, whatever else
  the map holds.
\<close>

theorem missing_SensorType_skips_device:
  assumes "resolveIdentity (deviceName p) st = (Proceed ident, st1)"
      and "findMatch sensorConfigurations (deviceName p) ident st1 = (Proceed mv, st2)"
      and "interfacePath mv = Some ip"
      and "baseConfigMap mv = Some m"
      and "m ''SensorType'' = None"
  shows "\<exists>st'. processDevice ext firstScan sensorConfigurations p st = (NextDevice, st') \<and>
           cerr st' = cerr st2 @ [''failed to find the sensor type for '' @ deviceName p @ ''\<newline>''] \<and>
           sensors st' = sensors st \<and> sensorsChanged st' = sensorsChanged st \<and>
           allocated st' = allocated st"
proof -
  let ?st' = "say (''failed to find the sensor type for '' @ deviceName p @ ''\<newline>'') st2"
  from assms(3-5) have
    "readName ext (deviceName p) (inferSensorTypeName (pathStr p)) mv st2 = (NextDevice, ?st')"
    by (simp add: readName_def)
  with identifySensor_matched[OF assms(1,2)] have
    "identifySensor ext sensorConfigurations p st = (NextDevice, ?st')" by simp
  then have "processDevice ext firstScan sensorConfigurations p st = (NextDevice, ?st')"
    by (rule processDevice_skipped)
  moreover have "cerr ?st' = cerr st2 @ [''failed to find the sensor type for '' @ deviceName p @ ''\<newline>'']"
    by (simp add: say_def)
  moreover have
    "sensors ?st' = sensors st" "sensorsChanged ?st' = sensorsChanged st"
    "allocated ?st' = allocated st"
    using only_cerr_fields[OF matched_only_cerr[OF assms(1,2)]] by (simp_all add: say_def)
  ultimately show ?thesis by blast
qed

theorem missing_SensorType_skips_device_witness:
  "resolveIdentity (deviceName path_C) engine_init = (Proceed (9, 0x10), engine_init) \<and>
   findMatch [record_A, record_C] (deviceName path_C) (9, 0x10) engine_init =
     (Proceed (matched record_C DPS310 config_C), engine_init) \<and>
   interfacePath (matched record_C DPS310 config_C) = Some ''/inventory/C'' \<and>
   baseConfigMap (matched record_C DPS310 config_C) = Some config_C \<and>
   config_C ''SensorType'' = None \<and> config_C ''Bus'' = Some (VUInt64 9) \<and>
   config_C ''Address'' = Some (VUInt64 0x10) \<and> config_C ''Name'' = Some (VString ''C'') \<and>
   (\<exists>st'. processDevice example_collaborators True [record_A, record_C] path_C engine_init =
            (NextDevice, st') \<and>
          cerr st' = cerr engine_init @
            [''failed to find the sensor type for '' @ deviceName path_C @ ''\<newline>''] \<and>
          sensors st' = sensors engine_init \<and>
          sensorsChanged st' = sensorsChanged engine_init \<and>
          allocated st' = allocated engine_init)"
proof -
  have h1: "resolveIdentity (deviceName path_C) engine_init = (Proceed (9, 0x10), engine_init)"
    by (simp add: eval_defs example_defs)
  have h2: "findMatch [record_A, record_C] (deviceName path_C) (9, 0x10) engine_init =
              (Proceed (matched record_C DPS310 config_C), engine_init)"
    by (simp add: eval_defs example_defs)
  have h3: "interfacePath (matched record_C DPS310 config_C) = Some ''/inventory/C''"
    by (simp add: matched_def record_C_def)
  have h4: "baseConfigMap (matched record_C DPS310 config_C) = Some config_C"
    by (simp add: matched_def)
  have h5: "config_C ''SensorType'' = None" by (simp add: config_C_def)
  have h6: "config_C ''Bus'' = Some (VUInt64 9) \<and> config_C ''Address'' = Some (VUInt64 0x10) \<and>
            config_C ''Name'' = Some (VString ''C'')" by (simp add: config_C_def)
  from missing_SensorType_skips_device[OF h1 h2 h3 h4 h5, of example_collaborators True]
    h1 h2 h3 h4 h5 h6
  show ?thesis by simp
qed

subsection \<open>The sensor a turn constructs\<close>

lemma processDevice_Proceed:
  assumes "processDevice ext fs cfgs p st = (Proceed u, st')"
  shows "\<exists>mv sn st1 st4 ip sd tag m rate rs s.
           identifySensor ext cfgs p st = (Proceed (mv, sn), st1) \<and>
           reconcile fs sn st1 = (Proceed (), st4) \<and>
           mv = matched (ip, sd) tag m \<and>
           effectivePollRate ext m = Inr rate \<and> effectiveReadState ext m = Inr rs \<and>
           sensors st' = (sensors st4)(sn \<mapsto> Some s) \<and>
           sensorsChanged st' = sensorsChanged st4 \<and>
           allocated st' = allocated st + 1 \<and>
           s = \<lparr>object_id = allocated st, path = pathStr p, objectType = Some tag, name = sn,
                thresholds = snd (parseThresholdsFromConfig ext sd), pollRate = rate,
                configurationPath = ip, readState = rs,
                sensorTypeName = inferSensorTypeName (pathStr p), reading = True\<rparr>"
proof -
  from assms[unfolded processDevice_def] obtain found st1 where
    id: "identifySensor ext cfgs p st = (Proceed found, st1)" and
    rest: "stage_bind (reconcile fs (snd found) st1) (\<lambda>u st4.
             construct ext p (inferSensorTypeName (pathStr p)) (fst found) (snd found) st4) =
           (Proceed u, st')"
    by (blast dest: stage_bind_Proceed)
  obtain mv sn where found: "found = (mv, sn)" by (cases found)
  from rest[unfolded found] obtain u' st4 where
    rc: "reconcile fs sn st1 = (Proceed u', st4)" and
    c: "construct ext p (inferSensorTypeName (pathStr p)) mv sn st4 = (Proceed u, st')"
    by (auto dest: stage_bind_Proceed)
  from identifySensor_Proceed[OF id[unfolded found]] obtain ip sd tag m where
    mv: "mv = \<lparr>sensorData = Some sd, interfacePath = Some ip, sensorType = Some tag,
                 baseConfiguration = Some (tag, m), baseConfigMap = Some m\<rparr>"
    by blast
  from construct_Proceed[OF mv c] obtain rate rs where
    conv: "effectivePollRate ext m = Inr rate" "effectiveReadState ext m = Inr rs" by blast
  from construct_matched[OF mv conv, of p "inferSensorTypeName (pathStr p)" sn st4] c
  obtain s where
    s: "sensors st' = (sensors st4)(sn \<mapsto> Some s)" "sensorsChanged st' = sensorsChanged st4"
       "allocated st' = allocated st4 + 1"
       "s = \<lparr>object_id = allocated st4, path = pathStr p, objectType = Some tag, name = sn,
                thresholds = snd (parseThresholdsFromConfig ext sd), pollRate = rate,
                configurationPath = ip, readState = rs,
                sensorTypeName = inferSensorTypeName (pathStr p), reading = True\<rparr>"
    by auto
  have "allocated st1 = allocated st"
    using only_cerr_fields[OF identifySensor_only_cerr[OF id]] by simp
  moreover from reconcile_cases[OF rc] have "allocated st4 = allocated st1" by auto
  ultimately have al: "allocated st4 = allocated st" by simp
  from mv have mv': "mv = matched (ip, sd) tag m" by (simp add: matched_def)
  from rc have rc': "reconcile fs sn st1 = (Proceed (), st4)" by simp
  from id found have id': "identifySensor ext cfgs p st = (Proceed (mv, sn), st1)" by simp
  from s al have s': "allocated st' = allocated st + 1"
    "s = \<lparr>object_id = allocated st, path = pathStr p, objectType = Some tag, name = sn,
                thresholds = snd (parseThresholdsFromConfig ext sd), pollRate = rate,
                configurationPath = ip, readState = rs,
                sensorTypeName = inferSensorTypeName (pathStr p), reading = True\<rparr>"
    by simp_all
  from id' rc' mv' conv s(1,2) s' show ?thesis by blast
qed

lemmas state_defs = sensor_A_def sensor_B_def warning_A_def engine_A_def engine_AB_def

lemma first_scan_A:
  "processDevice example_collaborators True [record_A, record_B] path_A engine_init =
     (Proceed (), engine_A)"
  by (simp add: eval_defs example_defs state_defs)

lemma first_scan_B:
  "processDevice example_collaborators True [record_A, record_B] path_B engine_A =
     (Proceed (), engine_AB)"
  by (simp add: eval_defs example_defs state_defs)

subsection \<open>The Reconciler and the construction\<close>

lemma identified_constructs:
  assumes id: "identifySensor ext cfgs p st = (Proceed (mv, sn), st1)"
      and m: "baseConfigMap mv = Some m"
      and conv: "effectivePollRate ext m = Inr rate" "effectiveReadState ext m = Inr rs"
  shows "\<exists>st' s. construct ext q (inferSensorTypeName (pathStr q)) mv sn stx = (Proceed (), st') \<and>
           sensors st' = (sensors stx)(sn \<mapsto> Some s) \<and>
           sensorsChanged st' = sensorsChanged stx \<and>
           allocated st' = allocated stx + 1 \<and>
           set (cerr stx) \<subseteq> set (cerr st') \<and>
           object_id s = allocated stx \<and> name s = sn \<and> reading s \<and>
           sensorTypeName s = inferSensorTypeName (pathStr q) \<and> pollRate s = rate"
proof -
  from identifySensor_Proceed[OF id] obtain ip sd tag m' where
    mv: "mv = \<lparr>sensorData = Some sd, interfacePath = Some ip, sensorType = Some tag,
                 baseConfiguration = Some (tag, m'), baseConfigMap = Some m'\<rparr>"
    by blast
  with m have "m' = m" by simp
  from construct_matched[OF mv[unfolded this] conv,
         of q "inferSensorTypeName (pathStr q)" sn stx]
  obtain st' s where
    c: "construct ext q (inferSensorTypeName (pathStr q)) mv sn stx = (Proceed (), st')"
       "sensors st' = (sensors stx)(sn \<mapsto> Some s)"
       "sensorsChanged st' = sensorsChanged stx"
       "allocated st' = allocated stx + 1"
       "set (cerr stx) \<subseteq> set (cerr st')"
       "s = \<lparr>object_id = allocated stx, path = pathStr q, objectType = Some tag, name = sn,
             thresholds = snd (parseThresholdsFromConfig ext sd), pollRate = rate,
             configurationPath = ip, readState = rs,
             sensorTypeName = inferSensorTypeName (pathStr q), reading = True\<rparr>"
    by (elim exE conjE) (rule that)
  from c(6) have "object_id s = allocated stx" "name s = sn" "reading s"
    "sensorTypeName s = inferSensorTypeName (pathStr q)" "pollRate s = rate"
    by simp_all
  with c(1-5) show ?thesis by blast
qed

lemma identify_A_rescan:
  "identifySensor example_collaborators [record_A, record_B] path_A engine_rescan =
     (Proceed (matched record_A DPS310 config_A, ''A''), say warning_A engine_rescan)"
  by (simp add: eval_defs example_defs state_defs engine_rescan_def)

lemma identify_B_rescan:
  "identifySensor example_collaborators [record_A, record_B] path_B engine_rescan =
     (Proceed (matched record_B SI7020 config_B, ''B''), engine_rescan)"
  by (simp add: eval_defs example_defs state_defs engine_rescan_def)

lemma conversions_A:
  "effectivePollRate example_collaborators config_A = Inr (Finite 2)"
  "effectiveReadState example_collaborators config_A = Inr always"
  by (simp_all add: effectivePollRate_def effectiveReadState_def example_defs Let_def
        float_of_rat_0 float_of_rat_2)

lemma conversions_B:
  "effectivePollRate example_collaborators config_B = Inr pollRateDefault"
  "effectiveReadState example_collaborators config_B = Inr always"
  by (simp_all add: effectivePollRate_def effectiveReadState_def example_defs Let_def
        float_of_rat_0 float_of_rat_2)

lemma slots_rescan:
  "sensors engine_rescan ''A'' = Some (Some sensor_A)"
  "sensors engine_rescan ''B'' = Some (Some sensor_B)"
  "sensorsChanged engine_rescan = [''/inventory/A'']"
  "allocated engine_rescan = 2"
  by (simp_all add: engine_rescan_def)

lemma changed_rescan:
  "find (\<lambda>x. ends_with x (name sensor_A)) (sensorsChanged engine_rescan) = Some ''/inventory/A''"
  "find (\<lambda>x. ends_with x (name sensor_B)) (sensorsChanged engine_rescan) = None"
  by (simp_all add: engine_rescan_def sensor_A_def sensor_B_def ends_with_def)

text \<open>
  C5.  On a first scan (\<open>firstScan\<close>, line 43) the turn of a device whose record matched and
  gave a name goes from line 172 to the construction whatever the sensor table and the
  changed-path set hold; when the conversions of \<^verbatim>\<open>PollRate\<close> and \<^verbatim>\<open>PowerState\<close> do not throw,
  the entry of the name holds the new sensor object afterwards, and the changed-path set is
  what it was.
\<close>

theorem first_scan_constructs_unconditionally:
  assumes "identifySensor ext sensorConfigurations p st = (Proceed (mv, sn), st1)"
      and "baseConfigMap mv = Some m"
      and "effectivePollRate ext m = Inr rate"
      and "effectiveReadState ext m = Inr rs"
  shows "processDevice ext True sensorConfigurations p st =
           construct ext p (inferSensorTypeName (pathStr p)) mv sn st1 \<and>
         (\<exists>st' s. processDevice ext True sensorConfigurations p st = (Proceed (), st') \<and>
            sensors st' = (sensors st)(sn \<mapsto> Some s) \<and>
            object_id s = allocated st \<and> name s = sn \<and> reading s \<and>
            sensorsChanged st' = sensorsChanged st \<and>
            allocated st' = allocated st + 1)"
proof -
  have pd: "processDevice ext True sensorConfigurations p st =
           construct ext p (inferSensorTypeName (pathStr p)) mv sn st1"
    by (simp add: processDevice_identified[OF assms(1)] reconcile_first_scan)
  note oc = only_cerr_fields[OF identifySensor_only_cerr[OF assms(1)]]
  from identified_constructs[OF assms, where q = p and stx = st1] obtain st' s where
    "construct ext p (inferSensorTypeName (pathStr p)) mv sn st1 = (Proceed (), st')"
    "sensors st' = (sensors st1)(sn \<mapsto> Some s)"
    "sensorsChanged st' = sensorsChanged st1"
    "allocated st' = allocated st1 + 1"
    "object_id s = allocated st1" "name s = sn" "reading s"
    by blast
  with pd oc show ?thesis by auto
qed

theorem first_scan_constructs_unconditionally_witness:
  "identifySensor example_collaborators [record_A, record_B] path_A engine_rescan =
     (Proceed (matched record_A DPS310 config_A, ''A''), say warning_A engine_rescan) \<and>
   baseConfigMap (matched record_A DPS310 config_A) = Some config_A \<and>
   effectivePollRate example_collaborators config_A = Inr (Finite 2) \<and>
   effectiveReadState example_collaborators config_A = Inr always \<and>
   sensors engine_rescan ''A'' = Some (Some sensor_A) \<and>
   sensorsChanged engine_rescan = [''/inventory/A''] \<and>
   (\<exists>st' s. processDevice example_collaborators True [record_A, record_B] path_A engine_rescan =
              (Proceed (), st') \<and>
      sensors st' = (sensors engine_rescan)(''A'' \<mapsto> Some s) \<and>
      object_id s = 2 \<and> name s = ''A'' \<and> reading s \<and>
      sensorsChanged st' = [''/inventory/A''] \<and> allocated st' = 3)"
proof -
  have m: "baseConfigMap (matched record_A DPS310 config_A) = Some config_A"
    by (simp add: matched_def)
  from first_scan_constructs_unconditionally[OF identify_A_rescan m conversions_A,
         THEN conjunct2]
  have "\<exists>st' s. processDevice example_collaborators True [record_A, record_B] path_A
              engine_rescan = (Proceed (), st') \<and>
      sensors st' = (sensors engine_rescan)(''A'' \<mapsto> Some s) \<and>
      object_id s = 2 \<and> name s = ''A'' \<and> reading s \<and>
      sensorsChanged st' = [''/inventory/A''] \<and> allocated st' = 3"
    by (simp add: slots_rescan)
  with identify_A_rescan m conversions_A slots_rescan
  show ?thesis by simp
qed

text \<open>
  C4.  On an incremental rescan, for a device whose record matched and gave a name that
  the sensor table holds with a sensor object \<open>old\<close>: when an entry of the changed-path set
  ends with the name stored in \<open>old\<close>, the first such entry is erased, the slot is set to
  null and (the conversions of \<^verbatim>\<open>PollRate\<close> and \<^verbatim>\<open>PowerState\<close> not throwing) a new sensor
  object is put in the slot; when no entry does, the turn ends at line 191 and the table,
  with the object \<open>old\<close> in its slot, the set and the number of objects are what they were.
\<close>

theorem incremental_rescan_reconciles:
  assumes "identifySensor ext sensorConfigurations p st = (Proceed (mv, sn), st1)"
      and "sensors st sn = Some (Some old)"
      and "baseConfigMap mv = Some m"
      and "effectivePollRate ext m = Inr rate"
      and "effectiveReadState ext m = Inr rs"
  shows "case find (\<lambda>x. ends_with x (name old)) (sensorsChanged st) of
           Some e \<Rightarrow>
             reconcile False sn st1 =
               (Proceed (), st1\<lparr>sensors := (sensors st)(sn \<mapsto> None),
                                sensorsChanged := remove1 e (sensorsChanged st)\<rparr>) \<and>
             (\<exists>st' s. processDevice ext False sensorConfigurations p st = (Proceed (), st') \<and>
                sensorsChanged st' = remove1 e (sensorsChanged st) \<and>
                sensors st' = (sensors st)(sn \<mapsto> Some s) \<and>
                object_id s = allocated st \<and> name s = sn \<and> reading s \<and>
                allocated st' = allocated st + 1)
         | None \<Rightarrow>
             processDevice ext False sensorConfigurations p st = (NextDevice, st1) \<and>
             sensors st1 = sensors st \<and> sensors st1 sn = Some (Some old) \<and>
             sensorsChanged st1 = sensorsChanged st \<and> allocated st1 = allocated st"
proof -
  note oc = only_cerr_fields[OF identifySensor_only_cerr[OF assms(1)]]
  from oc(1) assms(2) have slot: "sensors st1 sn = Some (Some old)" by simp
  note rc = reconcile_incremental[OF slot]
  note pd = processDevice_identified[OF assms(1), of False]
  show ?thesis
  proof (cases "find (\<lambda>x. ends_with x (name old)) (sensorsChanged st)")
    case None
    with rc oc have "reconcile False sn st1 = (NextDevice, st1)" by simp
    with pd have "processDevice ext False sensorConfigurations p st = (NextDevice, st1)"
      by simp
    with None oc slot show ?thesis by simp
  next
    case (Some e)
    let ?st4 = "st1\<lparr>sensors := (sensors st)(sn \<mapsto> None),
                    sensorsChanged := remove1 e (sensorsChanged st)\<rparr>"
    from Some rc oc have r: "reconcile False sn st1 = (Proceed (), ?st4)" by simp
    with pd have pd': "processDevice ext False sensorConfigurations p st =
       construct ext p (inferSensorTypeName (pathStr p)) mv sn ?st4" by simp
    from identified_constructs[OF assms(1,3,4,5), where q = p and stx = ?st4] obtain st' s where
      "construct ext p (inferSensorTypeName (pathStr p)) mv sn ?st4 = (Proceed (), st')"
      "sensors st' = (sensors ?st4)(sn \<mapsto> Some s)"
      "sensorsChanged st' = sensorsChanged ?st4"
      "allocated st' = allocated ?st4 + 1"
      "object_id s = allocated ?st4" "name s = sn" "reading s"
      by blast
    with pd' oc have "\<exists>st' s. processDevice ext False sensorConfigurations p st = (Proceed (), st') \<and>
                sensorsChanged st' = remove1 e (sensorsChanged st) \<and>
                sensors st' = (sensors st)(sn \<mapsto> Some s) \<and>
                object_id s = allocated st \<and> name s = sn \<and> reading s \<and>
                allocated st' = allocated st + 1"
      by auto
    with Some r show ?thesis by simp
  qed
qed

theorem incremental_rescan_reconciles_witness:
  "identifySensor example_collaborators [record_A, record_B] path_A engine_rescan =
     (Proceed (matched record_A DPS310 config_A, ''A''), say warning_A engine_rescan) \<and>
   sensors engine_rescan ''A'' = Some (Some sensor_A) \<and>
   baseConfigMap (matched record_A DPS310 config_A) = Some config_A \<and>
   effectivePollRate example_collaborators config_A = Inr (Finite 2) \<and>
   effectiveReadState example_collaborators config_A = Inr always \<and>
   find (\<lambda>x. ends_with x (name sensor_A)) (sensorsChanged engine_rescan) =
     Some ''/inventory/A'' \<and>
   (\<exists>st' s. processDevice example_collaborators False [record_A, record_B] path_A
              engine_rescan = (Proceed (), st') \<and>
      sensorsChanged st' = [] \<and>
      sensors st' = (sensors engine_rescan)(''A'' \<mapsto> Some s) \<and>
      object_id s = 2 \<and> name s = ''A'' \<and> reading s \<and> allocated st' = 3) \<and>
   identifySensor example_collaborators [record_A, record_B] path_B engine_rescan =
     (Proceed (matched record_B SI7020 config_B, ''B''), engine_rescan) \<and>
   sensors engine_rescan ''B'' = Some (Some sensor_B) \<and>
   baseConfigMap (matched record_B SI7020 config_B) = Some config_B \<and>
   effectivePollRate example_collaborators config_B = Inr pollRateDefault \<and>
   effectiveReadState example_collaborators config_B = Inr always \<and>
   find (\<lambda>x. ends_with x (name sensor_B)) (sensorsChanged engine_rescan) = None \<and>
   processDevice example_collaborators False [record_A, record_B] path_B engine_rescan =
     (NextDevice, engine_rescan)"
proof -
  have mA: "baseConfigMap (matched record_A DPS310 config_A) = Some config_A"
    by (simp add: matched_def)
  have mB: "baseConfigMap (matched record_B SI7020 config_B) = Some config_B"
    by (simp add: matched_def)
  from incremental_rescan_reconciles[OF identify_A_rescan slots_rescan(1) mA conversions_A,
         unfolded changed_rescan option.case]
  have A: "\<exists>st' s. processDevice example_collaborators False [record_A, record_B] path_A
              engine_rescan = (Proceed (), st') \<and>
      sensorsChanged st' = [] \<and>
      sensors st' = (sensors engine_rescan)(''A'' \<mapsto> Some s) \<and>
      object_id s = 2 \<and> name s = ''A'' \<and> reading s \<and> allocated st' = 3"
    by (simp add: slots_rescan)
  from incremental_rescan_reconciles[OF identify_B_rescan slots_rescan(2) mB conversions_B,
         unfolded changed_rescan option.case]
  have B: "processDevice example_collaborators False [record_A, record_B] path_B engine_rescan =
     (NextDevice, engine_rescan)"
    by simp
  from A B identify_A_rescan identify_B_rescan slots_rescan mA mB conversions_A conversions_B
    changed_rescan
  show ?thesis by simp
qed

subsection \<open>The poll rate\<close>

lemma fp_gt_zero_not_le: "fp_gt_zero r \<Longrightarrow> \<not> fp_le_zero r"
  by (cases r) auto

lemma effectivePollRate_absent:
  "m ''PollRate'' = None \<Longrightarrow> effectivePollRate ext m = Inr pollRateDefault"
  by (simp add: effectivePollRate_def)

lemma effectivePollRate_declared:
  assumes "m ''PollRate'' = Some v" and "VariantToFloatVisitor ext v = Inr r"
  shows "effectivePollRate ext m =
           Inr (if fp_le_zero (to_float r) then pollRateDefault else to_float r)"
  using assms by (simp add: effectivePollRate_def Let_def)

text \<open>
  A visitor that returns the declared number, as it is or as the \<^verbatim>\<open>float\<close> nearest to it,
  returns a value that is stored as the \<^verbatim>\<open>float\<close> nearest to the declared number.
\<close>

lemma stored_declared_number:
  assumes "r = d \<or> r = to_float d"
  shows "declared_float (VDouble d) = Some (to_float r)"
  using assms by (auto simp: to_float_idem)

lemma stored_declared_integer:
  assumes "r = Finite (of_nat (unat n)) \<or> r = float_of_rat (of_nat (unat n))"
  shows "declared_float (VUInt64 n) = Some (to_float r)"
  using assms to_float_idem[of "Finite (of_nat (unat n))"] by auto

lemma identify_G:
  "identifySensor example_collaborators [record_G declared] path_G engine_init =
     (Proceed (matched (record_G declared) DPS310 (config_G declared), ''G''), engine_init)"
  by (simp add: eval_defs example_defs config_G_def record_G_def path_G_def)

lemma map_G: "baseConfigMap (matched (record_G declared) DPS310 (config_G declared)) =
                Some (config_G declared)"
  by (simp add: matched_def)

lemma read_state_G: "effectiveReadState example_collaborators (config_G declared) = Inr always"
  by (simp add: effectiveReadState_def config_G_def)

lemma declared_G: "config_G declared ''PollRate'' = declared"
  by (simp add: config_G_def)

lemma tiny_rate_float: "0 < tiny_rate" "float_of_rat tiny_rate = Finite 0"
  by (simp_all add: tiny_rate_def float_of_rat_underflow)

lemma identify_G_exact:
  "identifySensor exact_collaborators [record_G declared] path_G engine_init =
     (Proceed (matched (record_G declared) DPS310 (config_G declared), ''G''), engine_init)"
  by (simp add: eval_defs example_defs exact_collaborators_def config_G_def record_G_def
        path_G_def)

lemma read_state_G_exact:
  "effectiveReadState exact_collaborators (config_G declared) = Inr always"
  by (simp add: effectiveReadState_def config_G_def)

lemma visitor_G:
  "VariantToFloatVisitor example_collaborators (VDouble d) = Inr (to_float d)"
  "VariantToFloatVisitor example_collaborators (VUInt64 n) = Inr (float_of_rat (of_nat (unat n)))"
  "VariantToFloatVisitor exact_collaborators (VDouble d) = Inr d"
  by (simp_all add: example_collaborators_def exact_collaborators_def)

text \<open>
  C9, as the code has it.  A device whose record matched and gave a name, which the
  Reconciler does not skip and whose \<^verbatim>\<open>PowerState\<close> is read without an exception, gets a
  sensor whose poll rate is that of lines 201 to 211: the default 0.5 when the record
  declares no \<^verbatim>\<open>PollRate\<close>; otherwise, the visitor returning a value that is stored as the
  \<^verbatim>\<open>float\<close> nearest to the declared number (the declared number as it is, or already as a
  \<^verbatim>\<open>float\<close>), that \<^verbatim>\<open>float\<close> when it is greater than zero, and the default when it is zero or
  negative.
\<close>

theorem effective_poll_rate_of_sensor:
  assumes "identifySensor ext sensorConfigurations p st = (Proceed (mv, sn), st1)"
      and "baseConfigMap mv = Some m"
      and "reconcile firstScan sn st1 = (Proceed (), st4)"
      and "effectiveReadState ext m = Inr rs"
      and "\<forall>v. m ''PollRate'' = Some v \<longrightarrow>
             (\<exists>r. VariantToFloatVisitor ext v = Inr r \<and> declared_float v = Some (to_float r))"
  shows "\<exists>st' s. processDevice ext firstScan sensorConfigurations p st = (Proceed (), st') \<and>
           sensors st' sn = Some (Some s) \<and> object_id s = allocated st \<and>
           (case m ''PollRate'' of
              None \<Rightarrow> pollRate s = pollRateDefault
            | Some v \<Rightarrow>
                (\<exists>f. declared_float v = Some f \<and>
                     (fp_gt_zero f \<longrightarrow> pollRate s = f) \<and>
                     (fp_le_zero f \<longrightarrow> pollRate s = pollRateDefault)))"
proof -
  note id = assms(1) and m = assms(2) and rc = assms(3) and rs = assms(4) and vis = assms(5)
  define rate where
    "rate = (case m ''PollRate'' of
               None \<Rightarrow> pollRateDefault
             | Some v \<Rightarrow>
                 (case declared_float v of
                    None \<Rightarrow> pollRateDefault
                  | Some f \<Rightarrow> if fp_le_zero f then pollRateDefault else f))"
  have conv: "effectivePollRate ext m = Inr rate"
  proof (cases "m ''PollRate''")
    case None
    then show ?thesis by (simp add: rate_def effectivePollRate_absent)
  next
    case (Some v)
    with vis obtain r where
      r: "VariantToFloatVisitor ext v = Inr r" "declared_float v = Some (to_float r)" by blast
    from effectivePollRate_declared[where m = m and v = v and ext = ext and r = r] Some r
    show ?thesis by (simp add: rate_def)
  qed
  from identifySensor_Proceed[OF id] obtain ip sd tag m' where
    mv: "mv = \<lparr>sensorData = Some sd, interfacePath = Some ip, sensorType = Some tag,
                 baseConfiguration = Some (tag, m'), baseConfigMap = Some m'\<rparr>"
    by blast
  with m have "m' = m" by simp
  from construct_matched[OF mv[unfolded this] conv rs,
         of p "inferSensorTypeName (pathStr p)" sn st4]
  obtain st' s where
    c: "construct ext p (inferSensorTypeName (pathStr p)) mv sn st4 = (Proceed (), st')"
       "sensors st' = (sensors st4)(sn \<mapsto> Some s)"
       "sensorsChanged st' = sensorsChanged st4"
       "allocated st' = allocated st4 + 1"
       "set (cerr st4) \<subseteq> set (cerr st')"
       "s = \<lparr>object_id = allocated st4, path = pathStr p, objectType = Some tag, name = sn,
             thresholds = snd (parseThresholdsFromConfig ext sd), pollRate = rate,
             configurationPath = ip, readState = rs,
             sensorTypeName = inferSensorTypeName (pathStr p), reading = True\<rparr>"
    by (elim exE conjE) (rule that)
  have run: "processDevice ext firstScan sensorConfigurations p st = (Proceed (), st')"
    by (simp add: processDevice_identified[OF id] rc c(1))
  have "allocated st1 = allocated st"
    using only_cerr_fields[OF identifySensor_only_cerr[OF id]] by simp
  moreover from reconcile_cases[OF rc] have "allocated st4 = allocated st1" by auto
  ultimately have al: "allocated st4 = allocated st" by simp
  from c(2) have slot: "sensors st' sn = Some (Some s)" by simp
  from c(6) al have oid: "object_id s = allocated st" and pr: "pollRate s = rate" by simp_all
  have "case m ''PollRate'' of
          None \<Rightarrow> pollRate s = pollRateDefault
        | Some v \<Rightarrow>
            (\<exists>f. declared_float v = Some f \<and>
                 (fp_gt_zero f \<longrightarrow> pollRate s = f) \<and>
                 (fp_le_zero f \<longrightarrow> pollRate s = pollRateDefault))"
  proof (cases "m ''PollRate''")
    case None
    with pr show ?thesis by (simp add: rate_def)
  next
    case (Some v)
    with vis obtain r where "declared_float v = Some (to_float r)" by blast
    with Some pr show ?thesis by (simp add: rate_def fp_gt_zero_not_le)
  qed
  with run slot oid show ?thesis by blast
qed

theorem effective_poll_rate_of_sensor_witness:
  "identifySensor example_collaborators [record_G (Some (VDouble (Finite 2)))] path_G engine_init =
     (Proceed (matched (record_G (Some (VDouble (Finite 2)))) DPS310
                 (config_G (Some (VDouble (Finite 2)))), ''G''), engine_init) \<and>
   baseConfigMap (matched (record_G (Some (VDouble (Finite 2)))) DPS310
                    (config_G (Some (VDouble (Finite 2))))) =
     Some (config_G (Some (VDouble (Finite 2)))) \<and>
   reconcile True ''G'' engine_init = (Proceed (), engine_init) \<and>
   effectiveReadState example_collaborators (config_G (Some (VDouble (Finite 2)))) = Inr always \<and>
   config_G (Some (VDouble (Finite 2))) ''PollRate'' = Some (VDouble (Finite 2)) \<and>
   VariantToFloatVisitor example_collaborators (VDouble (Finite 2)) = Inr (Finite 2) \<and>
   declared_float (VDouble (Finite 2)) = Some (to_float (Finite 2)) \<and>
   (\<exists>st' s. processDevice example_collaborators True [record_G (Some (VDouble (Finite 2)))]
               path_G engine_init = (Proceed (), st') \<and>
            sensors st' ''G'' = Some (Some s) \<and> object_id s = 0 \<and> pollRate s = Finite 2) \<and>
   (\<exists>st' s. processDevice example_collaborators True [record_G (Some (VUInt64 3))]
               path_G engine_init = (Proceed (), st') \<and>
            sensors st' ''G'' = Some (Some s) \<and> object_id s = 0 \<and> pollRate s = Finite 3) \<and>
   (\<exists>st' s. processDevice example_collaborators True [record_G (Some (VDouble (Finite 0)))]
               path_G engine_init = (Proceed (), st') \<and>
            sensors st' ''G'' = Some (Some s) \<and> object_id s = 0 \<and>
            pollRate s = pollRateDefault) \<and>
   (\<exists>st' s. processDevice example_collaborators True [record_G (Some (VDouble (Finite (- 1))))]
               path_G engine_init = (Proceed (), st') \<and>
            sensors st' ''G'' = Some (Some s) \<and> object_id s = 0 \<and>
            pollRate s = pollRateDefault) \<and>
   (\<exists>st' s. processDevice example_collaborators True [record_G (Some (VDouble NegInf))]
               path_G engine_init = (Proceed (), st') \<and>
            sensors st' ''G'' = Some (Some s) \<and> object_id s = 0 \<and>
            pollRate s = pollRateDefault) \<and>
   (\<exists>st' s. processDevice example_collaborators True [record_G None]
               path_G engine_init = (Proceed (), st') \<and>
            sensors st' ''G'' = Some (Some s) \<and> object_id s = 0 \<and>
            pollRate s = pollRateDefault) \<and>
   (\<exists>st' s. processDevice exact_collaborators True [record_G (Some (VDouble (Finite tiny_rate)))]
               path_G engine_init = (Proceed (), st') \<and>
            sensors st' ''G'' = Some (Some s) \<and> object_id s = 0 \<and>
            pollRate s = pollRateDefault)"
proof -
  note run = effective_poll_rate_of_sensor
    [OF identify_G map_G reconcile_first_scan read_state_G, unfolded declared_G]
  note run_exact = effective_poll_rate_of_sensor
    [OF identify_G_exact map_G reconcile_first_scan read_state_G_exact, unfolded declared_G]
  have v: "VariantToFloatVisitor example_collaborators (VDouble (Finite 2)) = Inr (Finite 2)"
          "declared_float (VDouble (Finite 2)) = Some (to_float (Finite 2))"
    by (simp_all add: visitor_G float_of_rat_2)
  have c1: "\<exists>st' s. processDevice example_collaborators True [record_G (Some (VDouble (Finite 2)))]
               path_G engine_init = (Proceed (), st') \<and>
            sensors st' ''G'' = Some (Some s) \<and> object_id s = 0 \<and> pollRate s = Finite 2"
    using run[of "Some (VDouble (Finite 2))"]
    by (simp add: visitor_G float_of_rat_2 engine_init_def)
  have c2: "\<exists>st' s. processDevice example_collaborators True [record_G (Some (VUInt64 3))]
               path_G engine_init = (Proceed (), st') \<and>
            sensors st' ''G'' = Some (Some s) \<and> object_id s = 0 \<and> pollRate s = Finite 3"
    using run[of "Some (VUInt64 3)"]
    by (simp add: visitor_G float_of_rat_3 engine_init_def)
  have c3: "\<exists>st' s. processDevice example_collaborators True [record_G (Some (VDouble (Finite 0)))]
               path_G engine_init = (Proceed (), st') \<and>
            sensors st' ''G'' = Some (Some s) \<and> object_id s = 0 \<and>
            pollRate s = pollRateDefault"
    using run[of "Some (VDouble (Finite 0))"]
    by (simp add: visitor_G float_of_rat_0 engine_init_def)
  have c4: "\<exists>st' s. processDevice example_collaborators True
               [record_G (Some (VDouble (Finite (- 1))))] path_G engine_init = (Proceed (), st') \<and>
            sensors st' ''G'' = Some (Some s) \<and> object_id s = 0 \<and>
            pollRate s = pollRateDefault"
    using run[of "Some (VDouble (Finite (- 1)))"]
    by (simp add: visitor_G float_of_rat_minus_1 engine_init_def)
  have c5: "\<exists>st' s. processDevice example_collaborators True [record_G (Some (VDouble NegInf))]
               path_G engine_init = (Proceed (), st') \<and>
            sensors st' ''G'' = Some (Some s) \<and> object_id s = 0 \<and>
            pollRate s = pollRateDefault"
    using run[of "Some (VDouble NegInf)"]
    by (simp add: visitor_G engine_init_def)
  have c6: "\<exists>st' s. processDevice example_collaborators True [record_G None]
               path_G engine_init = (Proceed (), st') \<and>
            sensors st' ''G'' = Some (Some s) \<and> object_id s = 0 \<and>
            pollRate s = pollRateDefault"
    using run[of None] by (simp add: engine_init_def)
  have c7: "\<exists>st' s. processDevice exact_collaborators True
               [record_G (Some (VDouble (Finite tiny_rate)))] path_G engine_init =
               (Proceed (), st') \<and>
            sensors st' ''G'' = Some (Some s) \<and> object_id s = 0 \<and>
            pollRate s = pollRateDefault"
    using run_exact[of "Some (VDouble (Finite tiny_rate))"]
    by (simp add: visitor_G tiny_rate_float engine_init_def)
  from identify_G map_G reconcile_first_scan read_state_G declared_G v c1 c2 c3 c4 c5 c6 c7
  show ?thesis by blast
qed

text \<open>
  The claim C9 fails for the record whose \<^verbatim>\<open>PollRate\<close> is \<open>1 / 2 ^ 200\<close>: the declared value is
  greater than zero, the \<^verbatim>\<open>float\<close> it is stored as at line 205 is zero, and the sensor is given
  the default 0.5, whether the visitor returns the number as it is or as a \<^verbatim>\<open>float\<close>.
\<close>

theorem tiny_poll_rate_gives_default_counterexample:
  "tiny_rate = 1 / 2 ^ 200 \<and> fp_gt_zero (Finite tiny_rate) \<and>
   config_G (Some (VDouble (Finite tiny_rate))) ''PollRate'' = Some (VDouble (Finite tiny_rate)) \<and>
   processDevice example_collaborators True [record_G (Some (VDouble (Finite tiny_rate)))] path_G
     engine_init = (Proceed (), engine_G pollRateDefault) \<and>
   processDevice exact_collaborators True [record_G (Some (VDouble (Finite tiny_rate)))] path_G
     engine_init = (Proceed (), engine_G pollRateDefault) \<and>
   sensors (engine_G pollRateDefault) ''G'' = Some (Some (sensor_G pollRateDefault)) \<and>
   pollRate (sensor_G pollRateDefault) = Finite (1 / 2) \<and>
   pollRate (sensor_G pollRateDefault) \<noteq> Finite tiny_rate"
proof -
  have "tiny_rate = 1 / 2 ^ 200" by (simp add: tiny_rate_def)
  moreover have "fp_gt_zero (Finite tiny_rate)" by (simp add: tiny_rate_float)
  moreover have "config_G (Some (VDouble (Finite tiny_rate))) ''PollRate'' =
                   Some (VDouble (Finite tiny_rate))" by (simp add: declared_G)
  moreover have "processDevice example_collaborators True
                   [record_G (Some (VDouble (Finite tiny_rate)))] path_G engine_init =
                 (Proceed (), engine_G pollRateDefault)"
    by (simp add: eval_defs example_defs config_G_def record_G_def path_G_def sensor_G_def
          engine_G_def tiny_rate_float)
  moreover have "processDevice exact_collaborators True
                   [record_G (Some (VDouble (Finite tiny_rate)))] path_G engine_init =
                 (Proceed (), engine_G pollRateDefault)"
    by (simp add: eval_defs example_defs exact_collaborators_def config_G_def record_G_def
          path_G_def sensor_G_def engine_G_def tiny_rate_float)
  moreover have "sensors (engine_G pollRateDefault) ''G'' = Some (Some (sensor_G pollRateDefault))"
    by (simp add: engine_G_def)
  moreover have "pollRate (sensor_G pollRateDefault) = Finite (1 / 2)"
    by (simp add: sensor_G_def pollRateDefault_def)
  moreover have "pollRate (sensor_G pollRateDefault) \<noteq> Finite tiny_rate"
    by (simp add: sensor_G_def pollRateDefault_def tiny_rate_def)
  ultimately show ?thesis by blast
qed

subsection \<open>The type check and the required fields\<close>

lemma reconcile_cerr:
  "reconcile fs sn (st\<lparr>cerr := c\<rparr>) =
     (fst (reconcile fs sn st), (snd (reconcile fs sn st))\<lparr>cerr := c\<rparr>)"
  by (simp add: reconcile_def split: option.splits sum.splits)

lemma reconcile_keeps_cerr:
  "reconcile fs sn st = (r, st') \<Longrightarrow> cerr st' = cerr st"
  by (auto simp: reconcile_def split: option.splits sum.splits if_splits)

text \<open>
  C6.  When the record that matched declares a \<^verbatim>\<open>SensorType\<close> that is not the channel kind
  read from the path, the warning of line 161 is written and the turn goes on with the
  name of line 172; when the Reconciler does not skip the device and the conversions of
  \<^verbatim>\<open>PollRate\<close> and \<^verbatim>\<open>PowerState\<close> do not throw, the sensor it constructs has the kind read
  from the path, not the declared one.
\<close>

theorem declared_type_mismatch_only_warns:
  assumes "resolveIdentity (deviceName p) st = (Proceed ident, st1)"
      and "findMatch sensorConfigurations (deviceName p) ident st1 = (Proceed mv, st2)"
      and "interfacePath mv = Some ip"
      and "baseConfigMap mv = Some m"
      and "m ''SensorType'' = Some tv"
      and "VariantToStringVisitor ext tv = Inr declared"
      and "declared \<noteq> inferSensorTypeName (pathStr p)"
      and "m ''Name'' = Some (VString sn)"
      and "fst (reconcile firstScan sn st) = Proceed ()"
      and "effectivePollRate ext m = Inr rate"
      and "effectiveReadState ext m = Inr rs"
  shows "identifySensor ext sensorConfigurations p st =
           (Proceed (mv, sn),
            say (''config sensor type '' @ declared @ '' doesn'' @ [CHR 0x27] @
                 ''t match sensor type '' @ inferSensorTypeName (pathStr p) @ ''\<newline>'') st2) \<and>
         (\<exists>st' s. processDevice ext firstScan sensorConfigurations p st = (Proceed (), st') \<and>
            (''config sensor type '' @ declared @ '' doesn'' @ [CHR 0x27] @
             ''t match sensor type '' @ inferSensorTypeName (pathStr p) @ ''\<newline>'')
              \<in> set (cerr st') \<and>
            sensors st' sn = Some (Some s) \<and> object_id s = allocated st \<and>
            sensorTypeName s = inferSensorTypeName (pathStr p) \<and>
            sensorTypeName s \<noteq> declared)"
proof -
  define w where "w = ''config sensor type '' @ declared @ '' doesn'' @ [CHR 0x27] @
            ''t match sensor type '' @ inferSensorTypeName (pathStr p) @ ''\<newline>''"
  define st3 where "st3 = say w st2"
  from assms(3-8) have
    "readName ext (deviceName p) (inferSensorTypeName (pathStr p)) mv st2 = (Proceed sn, st3)"
    by (simp add: readName_def st3_def w_def)
  with identifySensor_matched[OF assms(1,2)] have
    id: "identifySensor ext sensorConfigurations p st = (Proceed (mv, sn), st3)" by simp
  note oc = matched_only_cerr[OF assms(1,2)]
  have st3: "st3 = st\<lparr>cerr := cerr st2 @ [w]\<rparr>"
    unfolding st3_def by (subst oc) (simp add: say_def)
  have "fst (reconcile firstScan sn st3) = Proceed ()"
    unfolding st3 using assms(9) by (simp add: reconcile_cerr)
  then obtain st4 where rc: "reconcile firstScan sn st3 = (Proceed (), st4)"
    by (cases "reconcile firstScan sn st3") auto
  from reconcile_keeps_cerr[OF rc] have w4: "w \<in> set (cerr st4)" by (simp add: st3)
  from reconcile_cases[OF rc] have al4: "allocated st4 = allocated st3" by auto
  with st3 have al: "allocated st4 = allocated st" by simp
  from identified_constructs[OF id assms(4,10,11), where q = p and stx = st4]
  obtain st' s where
    c: "construct ext p (inferSensorTypeName (pathStr p)) mv sn st4 = (Proceed (), st')"
       "sensors st' = (sensors st4)(sn \<mapsto> Some s)"
       "set (cerr st4) \<subseteq> set (cerr st')"
       "object_id s = allocated st4"
       "sensorTypeName s = inferSensorTypeName (pathStr p)"
    by blast
  from processDevice_identified[OF id, of firstScan] rc c(1) have
    "processDevice ext firstScan sensorConfigurations p st = (Proceed (), st')" by simp
  moreover from c(3) w4 have "w \<in> set (cerr st')" by blast
  moreover from c(2) have "sensors st' sn = Some (Some s)" by simp
  moreover from c(4) al have "object_id s = allocated st" by simp
  moreover from c(5) assms(7) have "sensorTypeName s \<noteq> declared" by simp
  ultimately have "\<exists>st' s. processDevice ext firstScan sensorConfigurations p st = (Proceed (), st') \<and>
            w \<in> set (cerr st') \<and>
            sensors st' sn = Some (Some s) \<and> object_id s = allocated st \<and>
            sensorTypeName s = inferSensorTypeName (pathStr p) \<and>
            sensorTypeName s \<noteq> declared"
    using c(5) by blast
  with id show ?thesis unfolding st3_def w_def by blast
qed

theorem declared_type_mismatch_only_warns_witness:
  "resolveIdentity (deviceName path_A) engine_init = (Proceed (7, 0x76), engine_init) \<and>
   findMatch [record_A, record_B] (deviceName path_A) (7, 0x76) engine_init =
     (Proceed (matched record_A DPS310 config_A), engine_init) \<and>
   interfacePath (matched record_A DPS310 config_A) = Some ''/inventory/A'' \<and>
   baseConfigMap (matched record_A DPS310 config_A) = Some config_A \<and>
   config_A ''SensorType'' = Some (VString ''pressure'') \<and>
   VariantToStringVisitor example_collaborators (VString ''pressure'') = Inr ''pressure'' \<and>
   ''pressure'' \<noteq> inferSensorTypeName (pathStr path_A) \<and>
   config_A ''Name'' = Some (VString ''A'') \<and>
   fst (reconcile True ''A'' engine_init) = Proceed () \<and>
   effectivePollRate example_collaborators config_A = Inr (Finite 2) \<and>
   effectiveReadState example_collaborators config_A = Inr always \<and>
   (\<exists>st' s. processDevice example_collaborators True [record_A, record_B] path_A engine_init =
              (Proceed (), st') \<and>
      warning_A \<in> set (cerr st') \<and>
      sensors st' ''A'' = Some (Some s) \<and> object_id s = 0 \<and>
      sensorTypeName s = ''temperature'' \<and> sensorTypeName s \<noteq> ''pressure'')"
proof -
  have h1: "resolveIdentity (deviceName path_A) engine_init = (Proceed (7, 0x76), engine_init)"
    by (simp add: eval_defs example_defs)
  have h2: "findMatch [record_A, record_B] (deviceName path_A) (7, 0x76) engine_init =
     (Proceed (matched record_A DPS310 config_A), engine_init)"
    by (simp add: eval_defs example_defs)
  have h3: "interfacePath (matched record_A DPS310 config_A) = Some ''/inventory/A''"
    by (simp add: matched_def record_A_def)
  have h4: "baseConfigMap (matched record_A DPS310 config_A) = Some config_A"
    by (simp add: matched_def)
  have h5: "config_A ''SensorType'' = Some (VString ''pressure'')"
    by (simp add: config_A_def)
  have h6: "VariantToStringVisitor example_collaborators (VString ''pressure'') = Inr ''pressure''"
    by (simp add: example_collaborators_def)
  have k: "inferSensorTypeName (pathStr path_A) = ''temperature''"
    by (simp add: inferSensorTypeName_def path_A_def)
  have h7: "''pressure'' \<noteq> inferSensorTypeName (pathStr path_A)"
    by (simp add: k)
  have h8: "config_A ''Name'' = Some (VString ''A'')" by (simp add: config_A_def)
  have h9: "fst (reconcile True ''A'' engine_init) = Proceed ()"
    by (simp add: reconcile_first_scan)
  from declared_type_mismatch_only_warns[OF h1 h2 h3 h4 h5 h6 h7 h8 h9 conversions_A,
         THEN conjunct2, unfolded k]
  have "\<exists>st' s. processDevice example_collaborators True [record_A, record_B] path_A engine_init =
              (Proceed (), st') \<and>
      warning_A \<in> set (cerr st') \<and>
      sensors st' ''A'' = Some (Some s) \<and> object_id s = 0 \<and>
      sensorTypeName s = ''temperature'' \<and> sensorTypeName s \<noteq> ''pressure''"
    by (simp add: warning_A_def engine_init_def)
  with h1 h2 h3 h4 h5 h6 h7 h8 h9 conversions_A show ?thesis by simp
qed

subsection \<open>Records without a required field\<close>

lemma matchRecord_without_Bus_or_Address:
  assumes "probeTypes types (snd sensor) = Inr (Some (tag, m))"
      and "m ''Bus'' = None \<or> m ''Address'' = None"
  shows "\<exists>mv'. matchRecord types bus addr dn sensor mv out =
                 (Continue mv', out @ [''error finding bus or address in configuration\<newline>'']) \<and>
               interfacePath mv' = interfacePath mv"
  using assms by (auto simp: matchRecord_def Let_def split: option.splits)

lemma readName_without_Name:
  assumes "interfacePath mv = Some ip" and "baseConfigMap mv = Some m"
      and "m ''Name'' = None"
      and "m ''SensorType'' = None \<or>
           (\<exists>tv declared. m ''SensorType'' = Some tv \<and> VariantToStringVisitor ext tv = Inr declared)"
  shows "\<exists>st'. readName ext dn kind mv st = (NextDevice, st') \<and>
           last (cerr st') =
             (if m ''SensorType'' = None then ''failed to find the sensor type for '' @ dn @ ''\<newline>''
              else ''could not determine configuration name for '' @ dn @ ''\<newline>'')"
  using assms by (auto simp: readName_def say_def)

lemma processDevice_sensor_from_record:
  assumes "processDevice ext fs cfgs p st = (Proceed (), st')"
  shows "\<exists>ip sd tag m b a sn s. (ip, sd) \<in> set cfgs \<and> sd tag = Some m \<and>
           m ''Bus'' = Some b \<and> m ''Address'' = Some a \<and> m ''Name'' = Some (VString sn) \<and>
           sensors st' sn = Some (Some s) \<and> object_id s = allocated st \<and>
           configurationPath s = ip"
proof -
  from processDevice_Proceed[OF assms] obtain mv sn st1 st4 ip sd tag m rate rs s where
    h: "identifySensor ext cfgs p st = (Proceed (mv, sn), st1)"
       "reconcile fs sn st1 = (Proceed (), st4)"
       "mv = matched (ip, sd) tag m"
       "effectivePollRate ext m = Inr rate" "effectiveReadState ext m = Inr rs"
       "sensors st' = (sensors st4)(sn \<mapsto> Some s)"
       "sensorsChanged st' = sensorsChanged st4"
       "allocated st' = allocated st + 1"
       "s = \<lparr>object_id = allocated st, path = pathStr p, objectType = Some tag, name = sn,
             thresholds = snd (parseThresholdsFromConfig ext sd), pollRate = rate,
             configurationPath = ip, readState = rs,
             sensorTypeName = inferSensorTypeName (pathStr p), reading = True\<rparr>"
    by (elim exE conjE) (rule that)
  from identifySensor_Proceed[OF h(1)] obtain ident ip' sd' tag' m' where
    r: "(ip', sd') \<in> set cfgs" "sd' tag' = Some m'" "matches (fst ident) (snd ident) m'"
       "mv = \<lparr>sensorData = Some sd', interfacePath = Some ip', sensorType = Some tag',
              baseConfiguration = Some (tag', m'), baseConfigMap = Some m'\<rparr>"
       "m' ''Name'' = Some (VString sn)"
    by blast
  from r(4) h(3) have eq: "ip' = ip" "sd' = sd" "tag' = tag" "m' = m"
    by (simp_all add: matched_def)
  from r(3) have "m' ''Bus'' = Some (VUInt64 (fst ident))" "m' ''Address'' = Some (VUInt64 (snd ident))"
    by (simp_all add: matches_def)
  moreover from h(6) have "sensors st' sn = Some (Some s)" by simp
  moreover from h(9) have "object_id s = allocated st" "configurationPath s = ip" by simp_all
  ultimately show ?thesis using r(1,2,5) eq by blast
qed

text \<open>
  C8.  A record whose base-configuration map has no \<^verbatim>\<open>Bus\<close> or no \<^verbatim>\<open>Address\<close> does not match:
  the Matcher writes the message of line 129 and goes to the next record.  When the record
  that matched has no \<^verbatim>\<open>Name\<close> (its \<^verbatim>\<open>SensorType\<close>, if any, being readable as a string), the
  turn of the device ends with a message and the sensor table, the changed-path set and
  the number of sensor objects are what they were.  A turn that runs to its end has made
  its sensor from a record that has the three fields, and a turn that ends otherwise has
  made no sensor.
\<close>

theorem record_without_Bus_Address_Name_gives_no_sensor:
  "(probeTypes sensorTypes (snd sensor) = Inr (Some (tag, m)) \<and>
    (m ''Bus'' = None \<or> m ''Address'' = None) \<longrightarrow>
      (\<exists>mv'. matchRecord sensorTypes bus addr dn sensor mv out =
                (Continue mv', out @ [''error finding bus or address in configuration\<newline>'']) \<and>
              interfacePath mv' = interfacePath mv)) \<and>
   (resolveIdentity (deviceName p) st = (Proceed ident, st1) \<and>
    findMatch sensorConfigurations (deviceName p) ident st1 = (Proceed mv2, st2) \<and>
    interfacePath mv2 = Some ip \<and> baseConfigMap mv2 = Some m2 \<and> m2 ''Name'' = None \<and>
    (m2 ''SensorType'' = None \<or>
     (\<exists>tv declared. m2 ''SensorType'' = Some tv \<and>
        VariantToStringVisitor ext tv = Inr declared)) \<longrightarrow>
      (\<exists>st'. processDevice ext firstScan sensorConfigurations p st = (NextDevice, st') \<and>
         last (cerr st') =
           (if m2 ''SensorType'' = None
            then ''failed to find the sensor type for '' @ deviceName p @ ''\<newline>''
            else ''could not determine configuration name for '' @ deviceName p @ ''\<newline>'') \<and>
         sensors st' = sensors st \<and> sensorsChanged st' = sensorsChanged st \<and>
         allocated st' = allocated st)) \<and>
   (processDevice ext firstScan sensorConfigurations p st = (r, st3) \<longrightarrow>
      (if r = Proceed ()
       then (\<exists>ip sd tag m b a sn s. (ip, sd) \<in> set sensorConfigurations \<and> sd tag = Some m \<and>
               m ''Bus'' = Some b \<and> m ''Address'' = Some a \<and>
               m ''Name'' = Some (VString sn) \<and>
               sensors st3 sn = Some (Some s) \<and> object_id s = allocated st \<and>
               configurationPath s = ip)
       else allocated st3 = allocated st \<and>
            (\<forall>sn s. sensors st3 sn = Some (Some s) \<longrightarrow> sensors st sn = Some (Some s))))"
proof (intro conjI impI)
  assume "probeTypes sensorTypes (snd sensor) = Inr (Some (tag, m)) \<and>
    (m ''Bus'' = None \<or> m ''Address'' = None)"
  then show "\<exists>mv'. matchRecord sensorTypes bus addr dn sensor mv out =
                (Continue mv', out @ [''error finding bus or address in configuration\<newline>'']) \<and>
              interfacePath mv' = interfacePath mv"
    using matchRecord_without_Bus_or_Address by blast
next
  assume a: "resolveIdentity (deviceName p) st = (Proceed ident, st1) \<and>
    findMatch sensorConfigurations (deviceName p) ident st1 = (Proceed mv2, st2) \<and>
    interfacePath mv2 = Some ip \<and> baseConfigMap mv2 = Some m2 \<and> m2 ''Name'' = None \<and>
    (m2 ''SensorType'' = None \<or>
     (\<exists>tv declared. m2 ''SensorType'' = Some tv \<and>
        VariantToStringVisitor ext tv = Inr declared))"
  then have r: "resolveIdentity (deviceName p) st = (Proceed ident, st1)"
    and f: "findMatch sensorConfigurations (deviceName p) ident st1 = (Proceed mv2, st2)"
    by simp_all
  from a readName_without_Name[of mv2 ip m2 ext "deviceName p"
         "inferSensorTypeName (pathStr p)" st2]
  obtain st' where
    rn: "readName ext (deviceName p) (inferSensorTypeName (pathStr p)) mv2 st2 = (NextDevice, st')"
        "last (cerr st') =
           (if m2 ''SensorType'' = None
            then ''failed to find the sensor type for '' @ deviceName p @ ''\<newline>''
            else ''could not determine configuration name for '' @ deviceName p @ ''\<newline>'')"
    by blast
  from identifySensor_matched[OF r f, of ext] rn(1) have
    id: "identifySensor ext sensorConfigurations p st = (NextDevice, st')" by simp
  note oc = only_cerr_fields[OF identifySensor_only_cerr[OF id]]
  from processDevice_skipped[OF id, of firstScan] rn(2) oc
  show "\<exists>st'. processDevice ext firstScan sensorConfigurations p st = (NextDevice, st') \<and>
         last (cerr st') =
           (if m2 ''SensorType'' = None
            then ''failed to find the sensor type for '' @ deviceName p @ ''\<newline>''
            else ''could not determine configuration name for '' @ deviceName p @ ''\<newline>'') \<and>
         sensors st' = sensors st \<and> sensorsChanged st' = sensorsChanged st \<and>
         allocated st' = allocated st"
    by blast
next
  assume pd: "processDevice ext firstScan sensorConfigurations p st = (r, st3)"
  show "if r = Proceed ()
       then (\<exists>ip sd tag m b a sn s. (ip, sd) \<in> set sensorConfigurations \<and> sd tag = Some m \<and>
               m ''Bus'' = Some b \<and> m ''Address'' = Some a \<and>
               m ''Name'' = Some (VString sn) \<and>
               sensors st3 sn = Some (Some s) \<and> object_id s = allocated st \<and>
               configurationPath s = ip)
       else allocated st3 = allocated st \<and>
            (\<forall>sn s. sensors st3 sn = Some (Some s) \<longrightarrow> sensors st sn = Some (Some s))"
  proof (cases "r = Proceed ()")
    case True
    with pd processDevice_sensor_from_record show ?thesis by simp
  next
    case False
    with processDevice_no_sensor[OF pd] show ?thesis by simp
  qed
qed

theorem record_without_Bus_Address_Name_gives_no_sensor_witness:
  "probeTypes sensorTypes (snd record_E) = Inr (Some (SI7020, config_E)) \<and>
   config_E ''Bus'' = None \<and>
   (\<exists>mv'. matchRecord sensorTypes 7 0x76 ''7-0076'' record_E match_vars_init [] =
            (Continue mv', [''error finding bus or address in configuration\<newline>'']) \<and>
          interfacePath mv' = None) \<and>
   resolveIdentity (deviceName path_D) engine_init = (Proceed (10, 0x11), engine_init) \<and>
   findMatch [record_A, record_D] (deviceName path_D) (10, 0x11) engine_init =
     (Proceed (matched record_D DPS310 config_D), engine_init) \<and>
   interfacePath (matched record_D DPS310 config_D) = Some ''/inventory/D'' \<and>
   baseConfigMap (matched record_D DPS310 config_D) = Some config_D \<and>
   config_D ''Name'' = None \<and>
   config_D ''SensorType'' = Some (VString ''temperature'') \<and>
   VariantToStringVisitor example_collaborators (VString ''temperature'') = Inr ''temperature'' \<and>
   (\<exists>st'. processDevice example_collaborators True [record_A, record_D] path_D engine_init =
            (NextDevice, st') \<and>
      last (cerr st') = ''could not determine configuration name for 10-0011\<newline>'' \<and>
      sensors st' = Map.empty \<and> sensorsChanged st' = [] \<and> allocated st' = 0) \<and>
   processDevice example_collaborators True [record_A, record_B] path_A engine_init =
     (Proceed (), engine_A) \<and>
   (\<exists>ip sd tag m b a sn s. (ip, sd) \<in> set [record_A, record_B] \<and> sd tag = Some m \<and>
      m ''Bus'' = Some b \<and> m ''Address'' = Some a \<and> m ''Name'' = Some (VString sn) \<and>
      sensors engine_A sn = Some (Some s) \<and> object_id s = 0 \<and> configurationPath s = ip)"
proof -
  have e1: "probeTypes sensorTypes (snd record_E) = Inr (Some (SI7020, config_E))"
    by (simp add: sensorTypes_def record_E_def SI7020_def)
  have e2: "config_E ''Bus'' = None" by (simp add: config_E_def)
  from e1 e2 have e: "probeTypes sensorTypes (snd record_E) = Inr (Some (SI7020, config_E)) \<and>
    (config_E ''Bus'' = None \<or> config_E ''Address'' = None)" by simp
  have d1: "resolveIdentity (deviceName path_D) engine_init = (Proceed (10, 0x11), engine_init)"
    by (simp add: eval_defs example_defs)
  have d2: "findMatch [record_A, record_D] (deviceName path_D) (10, 0x11) engine_init =
     (Proceed (matched record_D DPS310 config_D), engine_init)"
    by (simp add: eval_defs example_defs)
  have d3: "interfacePath (matched record_D DPS310 config_D) = Some ''/inventory/D''"
    by (simp add: matched_def record_D_def)
  have d4: "baseConfigMap (matched record_D DPS310 config_D) = Some config_D"
    by (simp add: matched_def)
  have d5: "config_D ''Name'' = None" by (simp add: config_D_def)
  have d6: "config_D ''SensorType'' = Some (VString ''temperature'')"
    by (simp add: config_D_def)
  have d7: "VariantToStringVisitor example_collaborators (VString ''temperature'') =
            Inr ''temperature''"
    by (simp add: example_collaborators_def)
  from d1 d2 d3 d4 d5 d6 d7 have d:
    "resolveIdentity (deviceName path_D) engine_init = (Proceed (10, 0x11), engine_init) \<and>
     findMatch [record_A, record_D] (deviceName path_D) (10, 0x11) engine_init =
       (Proceed (matched record_D DPS310 config_D), engine_init) \<and>
     interfacePath (matched record_D DPS310 config_D) = Some ''/inventory/D'' \<and>
     baseConfigMap (matched record_D DPS310 config_D) = Some config_D \<and>
     config_D ''Name'' = None \<and>
     (config_D ''SensorType'' = None \<or>
      (\<exists>tv declared. config_D ''SensorType'' = Some tv \<and>
         VariantToStringVisitor example_collaborators tv = Inr declared))"
    by simp
  note thm1 = record_without_Bus_Address_Name_gives_no_sensor
    [where sensor = record_E and tag = SI7020 and m = config_E and bus = 7 and addr = "0x76"
       and dn = "''7-0076''" and mv = match_vars_init and out = "[]"
       and p = path_D and st = engine_init and ident = "(10, 0x11)" and ?st1.0 = engine_init
       and sensorConfigurations = "[record_A, record_D]"
       and ?mv2.0 = "matched record_D DPS310 config_D" and ?st2.0 = engine_init
       and ip = "''/inventory/D''" and ?m2.0 = config_D and ext = example_collaborators
       and firstScan = True]
  from thm1[THEN conjunct1, THEN mp, OF e]
  have c1: "\<exists>mv'. matchRecord sensorTypes 7 0x76 ''7-0076'' record_E match_vars_init [] =
            (Continue mv', [''error finding bus or address in configuration\<newline>'']) \<and>
          interfacePath mv' = None"
    by (simp add: match_vars_init_def)
  from thm1[THEN conjunct2, THEN conjunct1, THEN mp, OF d]
  have c2: "\<exists>st'. processDevice example_collaborators True [record_A, record_D] path_D engine_init =
            (NextDevice, st') \<and>
      last (cerr st') = ''could not determine configuration name for 10-0011\<newline>'' \<and>
      sensors st' = Map.empty \<and> sensorsChanged st' = [] \<and> allocated st' = 0"
    by (simp add: d6 path_D_def engine_init_def)
  from record_without_Bus_Address_Name_gives_no_sensor
    [where p = path_A and st = engine_init and sensorConfigurations = "[record_A, record_B]"
       and ext = example_collaborators and firstScan = True and r = "Proceed ()"
       and ?st3.0 = engine_A, THEN conjunct2, THEN conjunct2, THEN mp, OF first_scan_A]
  have c3: "\<exists>ip sd tag m b a sn s. (ip, sd) \<in> set [record_A, record_B] \<and> sd tag = Some m \<and>
      m ''Bus'' = Some b \<and> m ''Address'' = Some a \<and> m ''Name'' = Some (VString sn) \<and>
      sensors engine_A sn = Some (Some s) \<and> object_id s = 0 \<and> configurationPath s = ip"
    by (simp add: engine_init_def)
  from e1 e2 c1 d1 d2 d3 d4 d5 d6 d7 c2 first_scan_A c3 show ?thesis by simp
qed

subsection \<open>The Device Identity Resolver\<close>

lemma stoi_Inr_iff:
  "stoi base s = Inr v \<longleftrightarrow>
     strtol base s = Some v \<and> - (2 ^ 31) \<le> v \<and> v \<le> 2 ^ 31 - 1"
  by (auto simp: stoi_def split: option.splits)

lemma stoi_cases:
  "stoi base s = Inl InvalidArgument \<or> stoi base s = Inl OutOfRange \<or> (\<exists>v. stoi base s = Inr v)"
  by (auto simp: stoi_def split: option.splits)

lemma resolveIdentity_skips:
  assumes "find_char CHR ''-'' dn = None \<or>
           (\<exists>i. find_char CHR ''-'' dn = Some i \<and>
                (\<not> begins_with_number 10 (substr dn 0 i) \<or>
                 (\<exists>b. stoi 10 (substr dn 0 i) = Inr b) \<and>
                 \<not> begins_with_number 16 (substr_from dn (i + 1))))"
  shows "\<exists>st'. resolveIdentity dn st = (NextDevice, st') \<and> st' = st\<lparr>cerr := cerr st'\<rparr>"
  using assms
  by (auto simp: resolveIdentity_def say_def stoi_InvalidArgument_iff[symmetric])

lemma resolveIdentity_accepts:
  assumes "find_char CHR ''-'' dn = Some i"
      and "stoi 10 (substr dn 0 i) = Inr b"
      and "stoi 16 (substr_from dn (i + 1)) = Inr a"
  shows "resolveIdentity dn st = (Proceed (word_of_int b, word_of_int a), st)"
  using assms by (simp add: resolveIdentity_def)

lemma processPaths_next:
  assumes "processDevice ext fs cfgs p st = (NextDevice, st')"
  shows "processPaths ext fs cfgs (p # ps) st = processPaths ext fs cfgs ps st'"
  using assms by simp

lemma processDevice_not_resolved:
  assumes "resolveIdentity (deviceName p) st = (NextDevice, st')"
  shows "processDevice ext fs cfgs p st = (NextDevice, st')"
  using assms by (simp add: processDevice_def identifySensor_def)

text \<open>
  C3, as the code has it.  The name is split at its first hyphen; the bus token is read in
  base 10 and the address token in base 16 by \<^verbatim>\<open>std::stoi\<close>, which reads the digits a token
  begins with and ignores what follows them.  A name with no hyphen, or with a bus token
  that does not begin with a decimal digit, or with a bus token read as an \<^verbatim>\<open>int\<close> and an
  address token that does not begin with a hexadecimal digit, gives no identity: the turn
  of the device ends, the sensor table, the changed-path set and the number of sensor
  objects are what they were, and the loop goes on with the remaining paths.  A name
  whose two tokens are read as \<^verbatim>\<open>int\<close> values gives the identity of these values.
\<close>

theorem unparseable_device_name_is_skipped:
  "(find_char CHR ''-'' (deviceName p) = None \<or>
    (\<exists>i. find_char CHR ''-'' (deviceName p) = Some i \<and>
         (\<not> begins_with_number 10 (substr (deviceName p) 0 i) \<or>
          (\<exists>b. stoi 10 (substr (deviceName p) 0 i) = Inr b) \<and>
          \<not> begins_with_number 16 (substr_from (deviceName p) (i + 1)))) \<longrightarrow>
      (\<exists>st'. processDevice ext firstScan sensorConfigurations p st = (NextDevice, st') \<and>
         sensors st' = sensors st \<and> sensorsChanged st' = sensorsChanged st \<and>
         allocated st' = allocated st \<and>
         processPaths ext firstScan sensorConfigurations (p # ps) st =
           processPaths ext firstScan sensorConfigurations ps st')) \<and>
   (find_char CHR ''-'' dn = Some j \<and> stoi 10 (substr dn 0 j) = Inr b' \<and>
    stoi 16 (substr_from dn (j + 1)) = Inr a' \<longrightarrow>
      begins_with_number 10 (substr dn 0 j) \<and>
      begins_with_number 16 (substr_from dn (j + 1)) \<and>
      resolveIdentity dn st = (Proceed (word_of_int b', word_of_int a'), st))"
proof (intro conjI impI)
  assume "find_char CHR ''-'' (deviceName p) = None \<or>
    (\<exists>i. find_char CHR ''-'' (deviceName p) = Some i \<and>
         (\<not> begins_with_number 10 (substr (deviceName p) 0 i) \<or>
          (\<exists>b. stoi 10 (substr (deviceName p) 0 i) = Inr b) \<and>
          \<not> begins_with_number 16 (substr_from (deviceName p) (i + 1))))"
  from resolveIdentity_skips[OF this, of st] obtain st' where
    r: "resolveIdentity (deviceName p) st = (NextDevice, st')" and oc: "st' = st\<lparr>cerr := cerr st'\<rparr>"
    by blast
  note pd = processDevice_not_resolved[OF r, of ext firstScan sensorConfigurations]
  from pd processPaths_next[OF pd, of ps] only_cerr_fields[OF oc]
  show "\<exists>st'. processDevice ext firstScan sensorConfigurations p st = (NextDevice, st') \<and>
         sensors st' = sensors st \<and> sensorsChanged st' = sensorsChanged st \<and>
         allocated st' = allocated st \<and>
         processPaths ext firstScan sensorConfigurations (p # ps) st =
           processPaths ext firstScan sensorConfigurations ps st'"
    by blast
next
  assume a: "find_char CHR ''-'' dn = Some j \<and> stoi 10 (substr dn 0 j) = Inr b' \<and>
    stoi 16 (substr_from dn (j + 1)) = Inr a'"
  then show "begins_with_number 10 (substr dn 0 j)"
    using stoi_InvalidArgument_iff[of 10 "substr dn 0 j"] by auto
  from a show "begins_with_number 16 (substr_from dn (j + 1))"
    using stoi_InvalidArgument_iff[of 16 "substr_from dn (j + 1)"] by auto
  from a show "resolveIdentity dn st = (Proceed (word_of_int b', word_of_int a'), st)"
    by (simp add: resolveIdentity_accepts)
qed

theorem unparseable_device_name_is_skipped_witness:
  "find_char CHR ''-'' ''iio-hwmon'' = Some 3 \<and>
   \<not> begins_with_number 10 (substr ''iio-hwmon'' 0 3) \<and>
   (\<exists>st'. processDevice example_collaborators True [record_A, record_B]
            \<lparr>pathStr = ''/sys/bus/iio/devices/iio:device5/in_temp_input'',
             deviceName = ''iio-hwmon''\<rparr> engine_init = (NextDevice, st') \<and>
      sensors st' = Map.empty \<and> sensorsChanged st' = [] \<and> allocated st' = 0 \<and>
      processPaths example_collaborators True [record_A, record_B]
        [\<lparr>pathStr = ''/sys/bus/iio/devices/iio:device5/in_temp_input'',
          deviceName = ''iio-hwmon''\<rparr>, path_A] engine_init =
      processPaths example_collaborators True [record_A, record_B] [path_A] st') \<and>
   find_char CHR ''-'' ''7-0076'' = Some 1 \<and>
   stoi 10 (substr ''7-0076'' 0 1) = Inr 7 \<and>
   stoi 16 (substr_from ''7-0076'' (1 + 1)) = Inr 118 \<and>
   begins_with_number 10 (substr ''7-0076'' 0 1) \<and>
   begins_with_number 16 (substr_from ''7-0076'' (1 + 1)) \<and>
   resolveIdentity ''7-0076'' engine_init = (Proceed (7, 0x76), engine_init)"
proof -
  let ?p = "\<lparr>pathStr = ''/sys/bus/iio/devices/iio:device5/in_temp_input'',
             deviceName = ''iio-hwmon''\<rparr>"
  have h1: "find_char CHR ''-'' ''iio-hwmon'' = Some 3" by simp
  have h2: "\<not> begins_with_number 10 (substr ''iio-hwmon'' 0 3)"
    by (simp add: begins_with_number_def substr_def isspace_def digit_of_def)
  have h: "find_char CHR ''-'' (deviceName ?p) = None \<or>
    (\<exists>i. find_char CHR ''-'' (deviceName ?p) = Some i \<and>
         (\<not> begins_with_number 10 (substr (deviceName ?p) 0 i) \<or>
          (\<exists>b. stoi 10 (substr (deviceName ?p) 0 i) = Inr b) \<and>
          \<not> begins_with_number 16 (substr_from (deviceName ?p) (i + 1))))"
  proof (rule disjI2, rule exI[of _ 3], intro conjI disjI1)
    show "find_char CHR ''-'' (deviceName ?p) = Some 3"
      using h1 by (simp del: find_char.simps)
    show "\<not> begins_with_number 10 (substr (deviceName ?p) 0 3)"
      using h2 by simp
  qed
  have g1: "find_char CHR ''-'' ''7-0076'' = Some 1" by simp
  have g2: "stoi 10 (substr ''7-0076'' 0 1) = Inr 7"
    by (simp add: eval_defs)
  have g3: "stoi 16 (substr_from ''7-0076'' (1 + 1)) = Inr 118"
    by (simp add: eval_defs)
  from g1 g2 g3 have g: "find_char CHR ''-'' ''7-0076'' = Some 1 \<and>
    stoi 10 (substr ''7-0076'' 0 1) = Inr 7 \<and>
    stoi 16 (substr_from ''7-0076'' (1 + 1)) = Inr 118" by simp
  note t = unparseable_device_name_is_skipped
    [where p = ?p and ext = example_collaborators and firstScan = True
       and sensorConfigurations = "[record_A, record_B]" and st = engine_init
       and ps = "[path_A]" and dn = "''7-0076''" and j = 1 and b' = 7 and a' = 118]
  from t[THEN conjunct1, THEN mp, OF h]
  have c1: "\<exists>st'. processDevice example_collaborators True [record_A, record_B] ?p engine_init =
        (NextDevice, st') \<and>
      sensors st' = Map.empty \<and> sensorsChanged st' = [] \<and> allocated st' = 0 \<and>
      processPaths example_collaborators True [record_A, record_B] [?p, path_A] engine_init =
      processPaths example_collaborators True [record_A, record_B] [path_A] st'"
    by (simp add: engine_init_def)
  from t[THEN conjunct2, THEN mp, OF g]
  have c2: "begins_with_number 10 (substr ''7-0076'' 0 1) \<and>
   begins_with_number 16 (substr_from ''7-0076'' (1 + 1)) \<and>
   resolveIdentity ''7-0076'' engine_init = (Proceed (7, 0x76), engine_init)"
    by simp
  from h1 h2 c1 g1 g2 g3 c2 show ?thesis by simp
qed

text \<open>
  The claim C3 fails on the name \<open>7-76-1\<close>, which has two hyphens: the Resolver accepts it
  with the identity (7, 0x76), and the first scan makes the sensor of \<open>record_A\<close> for it.
\<close>

theorem two_hyphens_accepted_counterexample:
  "\<not> spec_device_name (deviceName path_two_hyphens) \<and>
   count_list (deviceName path_two_hyphens) CHR ''-'' = 2 \<and>
   resolveIdentity (deviceName path_two_hyphens) engine_init =
     (Proceed (7, 0x76), engine_init) \<and>
   fst (processDevice example_collaborators True [record_A, record_B] path_two_hyphens
          engine_init) = Proceed () \<and>
   sensors (snd (processDevice example_collaborators True [record_A, record_B]
                   path_two_hyphens engine_init)) ''A'' =
     Some (Some (sensor_A\<lparr>path := pathStr path_two_hyphens\<rparr>))"
  by (simp add: eval_defs example_defs state_defs path_two_hyphens_def spec_device_name_def)

subsection \<open>Exceptions in a pass\<close>

lemma get_uint64_Inl: "get_uint64 v = Inl e \<Longrightarrow> e = BadVariantAccess"
  by (cases v) auto

lemma matchRecord_throws:
  assumes "probeTypes types (snd sensor) = Inr (Some (tag, m))"
      and "m ''Bus'' = Some cb" and "m ''Address'' = Some ca"
      and "get_uint64 cb = Inl e \<or> get_uint64 cb = Inr bus \<and> get_uint64 ca = Inl e"
  shows "matchRecord types bus addr dn sensor mv out = (Throw BadVariantAccess, out)"
  using assms by (auto simp: matchRecord_def Let_def dest: get_uint64_Inl)

lemma processDevice_matcher_raises:
  assumes "resolveIdentity (deviceName p) st = (Proceed ident, st1)"
      and "matchRecords sensorTypes (fst ident) (snd ident) (deviceName p) cfgs
             match_vars_init (cerr st) = (Inl e, out)"
  shows "processDevice ext fs cfgs p st = (Raise e, st\<lparr>cerr := out\<rparr>)"
proof -
  from assms(1) have "st1 = st" by (rule resolveIdentity_Proceed)
  with assms show ?thesis
    by (simp add: processDevice_def identifySensor_def findMatch_def)
qed

lemma resolveIdentity_invalid_argument:
  assumes "find_char CHR ''-'' dn = Some i"
      and "stoi 10 (substr dn 0 i) = Inl InvalidArgument \<or>
           (\<exists>b. stoi 10 (substr dn 0 i) = Inr b) \<and>
           stoi 16 (substr_from dn (i + 1)) = Inl InvalidArgument"
  shows "resolveIdentity dn st = (NextDevice, st)"
  using assms by (auto simp: resolveIdentity_def)

text \<open>
  C2, as the code has it.  The handler of line 86 catches the \<^verbatim>\<open>std::invalid_argument\<close> of
  the two calls of \<^verbatim>\<open>std::stoi\<close>: the turn of the device ends, nothing is changed and the loop
  goes on with the remaining paths.  The callback has no other handler: a
  \<^verbatim>\<open>std::bad_variant_access\<close> thrown by \<^verbatim>\<open>std::get<uint64_t>\<close> on a \<^verbatim>\<open>Bus\<close> or an \<^verbatim>\<open>Address\<close> of
  another type (lines 134 to 136) leaves the Matcher, the loop over the paths and the
  callback, and the remaining paths are not processed.
\<close>

theorem only_invalid_argument_is_caught:
  "(find_char CHR ''-'' (deviceName p) = Some i \<and>
    (stoi 10 (substr (deviceName p) 0 i) = Inl InvalidArgument \<or>
     (\<exists>b. stoi 10 (substr (deviceName p) 0 i) = Inr b) \<and>
     stoi 16 (substr_from (deviceName p) (i + 1)) = Inl InvalidArgument) \<longrightarrow>
      processDevice ext firstScan sensorConfigurations p st = (NextDevice, st) \<and>
      processPaths ext firstScan sensorConfigurations (p # ps) st =
        processPaths ext firstScan sensorConfigurations ps st) \<and>
   (probeTypes sensorTypes (snd sensor) = Inr (Some (tag, m)) \<and>
    m ''Bus'' = Some cb \<and> m ''Address'' = Some ca \<and>
    (get_uint64 cb = Inl e \<or> get_uint64 cb = Inr bus \<and> get_uint64 ca = Inl e) \<longrightarrow>
      matchRecord sensorTypes bus addr dn sensor mv out = (Throw BadVariantAccess, out)) \<and>
   (resolveIdentity (deviceName p) st = (Proceed ident, st1) \<and>
    matchRecords sensorTypes (fst ident) (snd ident) (deviceName p) sensorConfigurations
      match_vars_init (cerr st) = (Inl e', out') \<longrightarrow>
      processPaths ext firstScan sensorConfigurations (p # ps) st =
        (Some e', st\<lparr>cerr := out'\<rparr>))"
proof (intro conjI impI)
  assume a: "find_char CHR ''-'' (deviceName p) = Some i \<and>
    (stoi 10 (substr (deviceName p) 0 i) = Inl InvalidArgument \<or>
     (\<exists>b. stoi 10 (substr (deviceName p) 0 i) = Inr b) \<and>
     stoi 16 (substr_from (deviceName p) (i + 1)) = Inl InvalidArgument)"
  then have "resolveIdentity (deviceName p) st = (NextDevice, st)"
    using resolveIdentity_invalid_argument by blast
  then show pd: "processDevice ext firstScan sensorConfigurations p st = (NextDevice, st)"
    by (rule processDevice_not_resolved)
  then show "processPaths ext firstScan sensorConfigurations (p # ps) st =
        processPaths ext firstScan sensorConfigurations ps st"
    by (rule processPaths_next)
next
  assume "probeTypes sensorTypes (snd sensor) = Inr (Some (tag, m)) \<and>
    m ''Bus'' = Some cb \<and> m ''Address'' = Some ca \<and>
    (get_uint64 cb = Inl e \<or> get_uint64 cb = Inr bus \<and> get_uint64 ca = Inl e)"
  then show "matchRecord sensorTypes bus addr dn sensor mv out = (Throw BadVariantAccess, out)"
    using matchRecord_throws by blast
next
  assume "resolveIdentity (deviceName p) st = (Proceed ident, st1) \<and>
    matchRecords sensorTypes (fst ident) (snd ident) (deviceName p) sensorConfigurations
      match_vars_init (cerr st) = (Inl e', out')"
  then have "processDevice ext firstScan sensorConfigurations p st =
               (Raise e', st\<lparr>cerr := out'\<rparr>)"
    using processDevice_matcher_raises by blast
  then show "processPaths ext firstScan sensorConfigurations (p # ps) st =
        (Some e', st\<lparr>cerr := out'\<rparr>)"
    by simp
qed

theorem only_invalid_argument_is_caught_witness:
  "find_char CHR ''-'' (deviceName path_hwmon) = Some 3 \<and>
   stoi 10 (substr (deviceName path_hwmon) 0 3) = Inl InvalidArgument \<and>
   processDevice example_collaborators True [record_A, record_B] path_hwmon engine_init =
     (NextDevice, engine_init) \<and>
   processPaths example_collaborators True [record_A, record_B] [path_hwmon, path_A]
     engine_init =
   processPaths example_collaborators True [record_A, record_B] [path_A] engine_init \<and>
   probeTypes sensorTypes (snd record_F) = Inr (Some (DPS310, config_F)) \<and>
   config_F ''Bus'' = Some (VString ''7'') \<and> config_F ''Address'' = Some (VUInt64 0x76) \<and>
   get_uint64 (VString ''7'') = Inl BadVariantAccess \<and>
   matchRecord sensorTypes 7 0x76 ''7-0076'' record_F match_vars_init [] =
     (Throw BadVariantAccess, []) \<and>
   resolveIdentity (deviceName path_A) engine_init = (Proceed (7, 0x76), engine_init) \<and>
   matchRecords sensorTypes 7 0x76 (deviceName path_A) [record_B, record_F]
     match_vars_init (cerr engine_init) = (Inl BadVariantAccess, []) \<and>
   processPaths example_collaborators True [record_B, record_F] [path_A, path_B] engine_init =
     (Some BadVariantAccess, engine_init)"
proof -
  have a1: "find_char CHR ''-'' (deviceName path_hwmon) = Some 3"
    by (simp add: path_hwmon_def)
  have a2: "stoi 10 (substr (deviceName path_hwmon) 0 3) = Inl InvalidArgument"
    by (simp add: path_hwmon_def eval_defs)
  from a1 a2 have a: "find_char CHR ''-'' (deviceName path_hwmon) = Some 3 \<and>
    (stoi 10 (substr (deviceName path_hwmon) 0 3) = Inl InvalidArgument \<or>
     (\<exists>b. stoi 10 (substr (deviceName path_hwmon) 0 3) = Inr b) \<and>
     stoi 16 (substr_from (deviceName path_hwmon) (3 + 1)) = Inl InvalidArgument)"
    by (intro conjI disjI1)
  have b1: "probeTypes sensorTypes (snd record_F) = Inr (Some (DPS310, config_F))"
    by (simp add: sensorTypes_def record_F_def DPS310_def)
  have b2: "config_F ''Bus'' = Some (VString ''7'')" by (simp add: config_F_def)
  have b3: "config_F ''Address'' = Some (VUInt64 0x76)" by (simp add: config_F_def)
  have b4: "get_uint64 (VString ''7'') = Inl BadVariantAccess" by simp
  from b1 b2 b3 b4 have b: "probeTypes sensorTypes (snd record_F) = Inr (Some (DPS310, config_F)) \<and>
    config_F ''Bus'' = Some (VString ''7'') \<and> config_F ''Address'' = Some (VUInt64 0x76) \<and>
    (get_uint64 (VString ''7'') = Inl BadVariantAccess \<or>
     get_uint64 (VString ''7'') = Inr 7 \<and> get_uint64 (VUInt64 0x76) = Inl BadVariantAccess)"
    by (intro conjI disjI1)
  have c1: "resolveIdentity (deviceName path_A) engine_init = (Proceed (7, 0x76), engine_init)"
    by (simp add: eval_defs example_defs)
  have c2: "matchRecords sensorTypes 7 0x76 (deviceName path_A) [record_B, record_F]
     match_vars_init (cerr engine_init) = (Inl BadVariantAccess, [])"
    by (simp add: eval_defs example_defs config_F_def record_F_def)
  from c1 c2 have c: "resolveIdentity (deviceName path_A) engine_init =
      (Proceed (7, 0x76), engine_init) \<and>
    matchRecords sensorTypes (fst (7, 0x76)) (snd (7, 0x76)) (deviceName path_A)
      [record_B, record_F] match_vars_init (cerr engine_init) = (Inl BadVariantAccess, [])"
    by simp
  from only_invalid_argument_is_caught
    [where p = path_hwmon and i = 3 and ext = example_collaborators and firstScan = True
       and sensorConfigurations = "[record_A, record_B]" and st = engine_init
       and ps = "[path_A]", THEN conjunct1, THEN mp, OF a]
  have r1: "processDevice example_collaborators True [record_A, record_B] path_hwmon
      engine_init = (NextDevice, engine_init) \<and>
   processPaths example_collaborators True [record_A, record_B] [path_hwmon, path_A]
     engine_init =
   processPaths example_collaborators True [record_A, record_B] [path_A] engine_init" .
  from only_invalid_argument_is_caught
    [where sensor = record_F and tag = DPS310 and m = config_F and cb = "VString ''7''"
       and ca = "VUInt64 0x76" and e = BadVariantAccess and bus = 7 and addr = "0x76"
       and dn = "''7-0076''" and mv = match_vars_init and out = "[]",
     THEN conjunct2, THEN conjunct1, THEN mp, OF b]
  have r2: "matchRecord sensorTypes 7 0x76 ''7-0076'' record_F match_vars_init [] =
     (Throw BadVariantAccess, [])" .
  from only_invalid_argument_is_caught
    [where p = path_A and st = engine_init and ident = "(7, 0x76)" and ?st1.0 = engine_init
       and sensorConfigurations = "[record_B, record_F]" and e' = BadVariantAccess
       and out' = "[]" and ext = example_collaborators and firstScan = True
       and ps = "[path_B]", THEN conjunct2, THEN conjunct2, THEN mp, OF c]
  have r3: "processPaths example_collaborators True [record_B, record_F] [path_A, path_B]
      engine_init = (Some BadVariantAccess, engine_init)"
    by (simp add: engine_init_def)
  from a1 a2 r1 b1 b2 b3 b4 r2 c1 c2 r3 show ?thesis by simp
qed

text \<open>
  The claim C2 fails on the configuration \<open>[record_B, record_F]\<close> and the paths of the
  devices \<open>7-0076\<close> and \<open>8-0040\<close>: for the first the Matcher passes over \<open>record_B\<close> and reads
  the \<^verbatim>\<open>Bus\<close> of \<open>record_F\<close>, a string; the exception ends the pass and no sensor is made for
  the second device, for which the pass over that path alone makes the sensor \<open>B\<close>.
\<close>

theorem bad_variant_aborts_pass_counterexample:
  "createSensors example_collaborators True [record_B, record_F] [path_A, path_B] engine_init =
     (Some BadVariantAccess, engine_init) \<and>
   sensors engine_init ''B'' = None \<and>
   fst (createSensors example_collaborators True [record_B, record_F] [path_B] engine_init) =
     None \<and>
   sensors (snd (createSensors example_collaborators True [record_B, record_F] [path_B]
                   engine_init)) ''B'' = Some (Some (sensor_B\<lparr>object_id := 0\<rparr>))"
  by (simp add: eval_defs example_defs state_defs config_F_def record_F_def)

subsection \<open>The Change Debouncer\<close>











end
